theory Spec2Isabelle
  imports Complex_Main "HOL-Library.Sublist"
begin

section \<open>The rules engine as the code sees it\<close>

text \<open>
  The chess rules (move generation, check, mate and draw detection, FEN decoding) are
  delegated to the third-party library chess.js. Its code is not part of this repository,
  so the library is a parameter of the model: an instance of its \<^verbatim>\<open>Chess\<close> class is the
  record of what its methods answer, and the two operations that build instances
  (\<^verbatim>\<open>new Chess(fen)\<close> and \<^verbatim>\<open>game.move(san)\<close>) are functions supplied from outside.
  Every fact about the library that a theorem relies on is an explicit hypothesis of it.
\<close>

datatype Color = White | Black
  \<comment> \<open>chess.js \<^verbatim>\<open>'w' | 'b'\<close>\<close>

datatype PieceSymbol = Pawn | Knight | Bishop | Rook | Queen | King
  \<comment> \<open>chess.js \<^verbatim>\<open>'p' | 'n' | 'b' | 'r' | 'q' | 'k'\<close>\<close>

record Piece =
  p_square :: string
  p_type :: PieceSymbol
  p_color :: Color

record Move =
  m_color :: Color
  m_from :: string
  m_to :: string
  m_piece :: PieceSymbol
  m_captured :: "PieceSymbol option"
  m_san :: string

record Chess =
  turn :: Color
  board :: "Piece option list list"
  fen :: string
  ascii :: string
  history :: "Move list"
    \<comment> \<open>\<^verbatim>\<open>history({verbose: true})\<close>; \<^verbatim>\<open>history()\<close> has the same length\<close>
  moves :: "string list"
  moves_verbose :: "Move list"
    \<comment> \<open>\<^verbatim>\<open>moves({verbose: true})\<close>\<close>
  moves_square :: "string \<Rightarrow> Move list"
    \<comment> \<open>\<^verbatim>\<open>moves({square, verbose: true})\<close>\<close>
  get :: "string \<Rightarrow> Piece option"
  isCheck :: bool
  isCheckmate :: bool
  isStalemate :: bool
  isDraw :: bool
  isThreefoldRepetition :: bool
  isInsufficientMaterial :: bool
  isGameOver :: bool

text \<open>
  A JSON value: what the bodies of requests and responses are made of, and what the client
  reads from a response and hands to the library. A number stands as its literal; the code
  never looks into one.
\<close>

datatype json =
  JNull | JBool bool | JNum string | JStr string | JArr "json list" | JObj "(string \<times> json) list"

text \<open>
  The two operations of the library that can throw. \<open>Inl msg\<close> is an \<^verbatim>\<open>Error\<close> thrown
  with message \<open>msg\<close>; \<open>Inr g\<close> is the instance built (for \<open>move\<close>: the instance after
  the move, which the library reaches by mutating the receiver). The argument of \<open>move\<close>
  is the JavaScript value that the caller passes, whatever it is: \<open>None\<close> is
  \<^verbatim>\<open>undefined\<close>, \<open>Some v\<close> the value \<open>v\<close>. The routes pass a string (or
  \<^verbatim>\<open>undefined\<close>), the client passes what it has read from the response. Which of
  these values the library plays and which it refuses is the library's business.
\<close>

record chess_js =
  new_Chess :: "string \<Rightarrow> string + Chess"
  move :: "Chess \<Rightarrow> json option \<Rightarrow> string + Chess"

section \<open>simple-eval: the material evaluator\<close>

definition PIECE_VALUES :: "PieceSymbol \<Rightarrow> rat option" where
  "PIECE_VALUES =
     [Pawn \<mapsto> 1, Knight \<mapsto> 3, Bishop \<mapsto> 3, Rook \<mapsto> 5, Queen \<mapsto> 9, King \<mapsto> 0]"

definition or_zero :: "rat option \<Rightarrow> rat" where
  \<comment> \<open>\<^verbatim>\<open>x || 0\<close>: a missing entry and the number 0 both give 0\<close>
  "or_zero x = (case x of None \<Rightarrow> 0 | Some v \<Rightarrow> if v = 0 then 0 else v)"

definition add_square :: "rat \<Rightarrow> Piece option \<Rightarrow> rat" where
  \<comment> \<open>the body of the inner loop of \<^verbatim>\<open>evaluateBoard\<close>\<close>
  "add_square materialScore sq =
     (case sq of
        None \<Rightarrow> materialScore
      | Some piece \<Rightarrow>
          (let v = or_zero (PIECE_VALUES (p_type piece))
           in materialScore + (if p_color piece = White then v else - v)))"

fun row_loop :: "rat \<Rightarrow> Piece option list \<Rightarrow> rat" where
  \<comment> \<open>\<^verbatim>\<open>for (const square of row)\<close>\<close>
  "row_loop materialScore [] = materialScore"
| "row_loop materialScore (sq # rest) = row_loop (add_square materialScore sq) rest"

fun board_loop :: "rat \<Rightarrow> Piece option list list \<Rightarrow> rat" where
  \<comment> \<open>\<^verbatim>\<open>for (const row of board)\<close>\<close>
  "board_loop materialScore [] = materialScore"
| "board_loop materialScore (row # rest) = board_loop (row_loop materialScore row) rest"

definition toFixed1 :: "rat \<Rightarrow> rat" where
  \<comment> \<open>\<^verbatim>\<open>parseFloat(x.toFixed(1))\<close>: the nearest multiple of 1/10, a tie going away
      from zero. Numbers are exact rationals here; the scores of this function are small
      integers, which doubles hold exactly.\<close>
  "toFixed1 x =
     (if x < 0 then - (of_int \<lfloor>(- x) * 10 + 1 / 2\<rfloor> / 10)
      else of_int \<lfloor>x * 10 + 1 / 2\<rfloor> / 10)"

definition evaluateBoard :: "Chess \<Rightarrow> rat" where
  "evaluateBoard game =
     (if isCheckmate game then (if turn game = White then - 100 else 100)
      else if isDraw game \<or> isThreefoldRepetition game \<or> isInsufficientMaterial game then 0
      else toFixed1 (board_loop 0 (board game)))"

text \<open>The sum the specification speaks of, over the occupied squares of the board.\<close>

definition signed_value :: "Piece \<Rightarrow> rat" where
  "signed_value piece =
     (case p_type piece of Pawn \<Rightarrow> 1 | Knight \<Rightarrow> 3 | Bishop \<Rightarrow> 3 | Rook \<Rightarrow> 5 | Queen \<Rightarrow> 9 | King \<Rightarrow> 0)
     * (if p_color piece = White then 1 else - 1)"

definition occupied :: "Chess \<Rightarrow> Piece list" where
  "occupied game = List.map_filter id (concat (board game))"

definition material_sum :: "Chess \<Rightarrow> rat" where
  "material_sum game = sum_list (map signed_value (occupied game))"

section \<open>JavaScript values used by the routes\<close>

text \<open>
  A string is the list of the bytes of its UTF-8 form (a lone surrogate as the three bytes
  that the same scheme gives it), so that a character outside ASCII is two to four bytes,
  none of them an ASCII byte. The functions below are the string methods the code calls.

  \<^verbatim>\<open>toLowerCase\<close> is applied to error messages only, and the code only asks whether the
  result contains \<^verbatim>\<open>already over\<close> or \<^verbatim>\<open>invalid fen\<close>. The definition lowers the ASCII
  letters and leaves every other character as it is, which answers these two questions as
  JavaScript does: the only characters outside ASCII whose lower case has an ASCII letter
  are U+212A, which gives \<^verbatim>\<open>k\<close>, a letter in neither phrase, and U+0130, which gives
  \<^verbatim>\<open>i\<close> followed by U+0307, where the phrases have \<^verbatim>\<open>n\<close> or \<^verbatim>\<open>d\<close> after their
  \<^verbatim>\<open>i\<close>.
\<close>

definition toLowerCase :: "string \<Rightarrow> string" where
  "toLowerCase s =
     map (\<lambda>c. case map_of (zip ''ABCDEFGHIJKLMNOPQRSTUVWXYZ'' ''abcdefghijklmnopqrstuvwxyz'') c of
                 None \<Rightarrow> c | Some l \<Rightarrow> l) s"

fun str_includes :: "string \<Rightarrow> string \<Rightarrow> bool" where
  \<comment> \<open>\<^verbatim>\<open>s.includes(t)\<close>: \<open>t\<close> occurs in \<open>s\<close> as a contiguous piece\<close>
  "str_includes [] t = (t = [])"
| "str_includes (c # s) t = (prefix t (c # s) \<or> str_includes s t)"

definition white_space :: "string list" where
  \<comment> \<open>the characters that \<^verbatim>\<open>trim\<close> removes, which are the \<^verbatim>\<open>WhiteSpace\<close> and
      \<^verbatim>\<open>LineTerminator\<close> code points of ECMAScript: U+0009 to U+000D, U+0020, U+00A0,
      U+1680, U+2000 to U+200A, U+2028, U+2029, U+202F, U+205F, U+3000 and U+FEFF\<close>
  "white_space =
     [[CHR 0x09], [CHR 0x0A], [CHR 0x0B], [CHR 0x0C], [CHR 0x0D], [CHR 0x20],
      [CHR 0xC2, CHR 0xA0], [CHR 0xE1, CHR 0x9A, CHR 0x80]]
     @ map (\<lambda>c. [CHR 0xE2, CHR 0x80, c])
         [CHR 0x80, CHR 0x81, CHR 0x82, CHR 0x83, CHR 0x84, CHR 0x85, CHR 0x86, CHR 0x87,
          CHR 0x88, CHR 0x89, CHR 0x8A, CHR 0xA8, CHR 0xA9, CHR 0xAF]
     @ [[CHR 0xE2, CHR 0x81, CHR 0x9F], [CHR 0xE3, CHR 0x80, CHR 0x80],
        [CHR 0xEF, CHR 0xBB, CHR 0xBF]]"

function strip :: "string list \<Rightarrow> string \<Rightarrow> string" where
  \<comment> \<open>takes from the front of \<open>s\<close> every leading occurrence of a member of \<open>ws\<close>\<close>
  "strip ws s =
     (case find (\<lambda>w. w \<noteq> [] \<and> prefix w s) ws of
        None \<Rightarrow> s
      | Some w \<Rightarrow> strip ws (drop (length w) s))"
  by pat_completeness auto

termination strip
proof (relation "measure (\<lambda>(ws, s). length s)")
  show "wf (measure (\<lambda>(ws, s). length s))" by simp
next
  fix ws :: "string list" and s w :: string
  assume "find (\<lambda>w. w \<noteq> [] \<and> prefix w s) ws = Some w"
  then have "w \<noteq> []" "prefix w s" by (auto simp: find_Some_iff)
  then have "0 < length w" "length w \<le> length s" by (simp_all add: prefix_length_le)
  then have "length s - length w < length s" by arith
  then show "((ws, drop (length w) s), (ws, s)) \<in> measure (\<lambda>(ws, s). length s)" by simp
qed

definition trimStart :: "string \<Rightarrow> string" where
  "trimStart s = strip white_space s"

definition trimEnd :: "string \<Rightarrow> string" where
  \<comment> \<open>the same from the back: the bytes of a character end a string only where that
      character ends it, because its first byte is never a later byte of another\<close>
  "trimEnd s = rev (strip (map rev white_space) (rev s))"

definition trim :: "string \<Rightarrow> string" where
  "trim s = trimEnd (trimStart s)"

fun join :: "string \<Rightarrow> string list \<Rightarrow> string" where
  \<comment> \<open>\<^verbatim>\<open>xs.join(sep)\<close>\<close>
  "join sep [] = []"
| "join sep [x] = x"
| "join sep (x # y # ys) = x @ sep @ join sep (y # ys)"

fun show_nat :: "nat \<Rightarrow> string" where
  \<comment> \<open>the decimal text of a non-negative integer, as string interpolation prints it\<close>
  "show_nat n =
     (if n < 10 then [''0123456789'' ! n]
      else show_nat (n div 10) @ [''0123456789'' ! (n mod 10)])"

definition pick :: "rat \<Rightarrow> 'a list \<Rightarrow> 'a option" where
  \<comment> \<open>\<^verbatim>\<open>xs[Math.floor(Math.random() * xs.length)]\<close>, with \<open>rnd\<close> the value that
      \<^verbatim>\<open>Math.random()\<close> returned; \<open>None\<close> is \<^verbatim>\<open>undefined\<close>, which an index outside
      the array gives\<close>
  "pick rnd xs =
     (let i = \<lfloor>rnd * of_nat (length xs)\<rfloor>
      in if 0 \<le> i \<and> i < int (length xs) then Some (xs ! nat i) else None)"

text \<open>
  A thrown value. \<open>Error msg\<close> is an \<^verbatim>\<open>Error\<close> (or \<^verbatim>\<open>TypeError\<close>) with that message;
  \<open>APIError msg code status\<close> is an error of the OpenAI client, which carries an optional
  \<^verbatim>\<open>code\<close> and HTTP \<^verbatim>\<open>status\<close>; \<open>NonError\<close> is any thrown object that is not an
  instance of \<^verbatim>\<open>Error\<close> and has none of these properties.
\<close>

datatype thrown = Error string | APIError string "string option" "nat option" | NonError

fun is_Error :: "thrown \<Rightarrow> bool" where
  \<comment> \<open>\<^verbatim>\<open>error instanceof Error\<close>\<close>
  "is_Error NonError = False"
| "is_Error _ = True"

fun message :: "thrown \<Rightarrow> string option" where
  "message (Error msg) = Some msg"
| "message (APIError msg _ _) = Some msg"
| "message NonError = None"

fun code :: "thrown \<Rightarrow> string option" where
  "code (APIError _ c _) = c"
| "code _ = None"

fun http_status :: "thrown \<Rightarrow> nat option" where
  \<comment> \<open>\<^verbatim>\<open>apiError.status\<close>\<close>
  "http_status (APIError _ _ s) = s"
| "http_status _ = None"

text \<open>
  A response of a route: the HTTP status and the JSON object of the body, as the list of its
  fields. \<^verbatim>\<open>NextResponse.json\<close> serialises with \<^verbatim>\<open>JSON.stringify\<close>, which leaves out
  a property whose value is \<^verbatim>\<open>undefined\<close>; \<open>json_body\<close> does the same with \<open>None\<close>.
\<close>

record response =
  status :: nat
  body :: "(string \<times> json) list"

definition json_body :: "(string \<times> json option) list \<Rightarrow> (string \<times> json) list" where
  "json_body kvs = List.map_filter (\<lambda>(k, v). map_option (Pair k) v) kvs"

text \<open>
  What \<^verbatim>\<open>await request.json()\<close> gives: it throws (\<open>Unparseable\<close>), or it returns
  \<^verbatim>\<open>null\<close> (\<open>JsonNull\<close>), or it returns any other JSON value, of which the route reads
  the property \<^verbatim>\<open>fen\<close> only: \<open>JsonValue None\<close> when that property is absent (or is
  \<^verbatim>\<open>null\<close>, \<^verbatim>\<open>false\<close> or \<^verbatim>\<open>0\<close>, which the code treats alike), \<open>JsonValue (Some s)\<close>
  when it is the string \<open>s\<close>. The request body is declared as \<^verbatim>\<open>{ fen: string }\<close>; a
  \<^verbatim>\<open>fen\<close> that is a number, an array or an object is outside this type.
\<close>

datatype request_body = Unparseable | JsonNull | JsonValue "string option"

record environment =
  NODE_ENV :: "string option"
  stack_trace :: "thrown \<Rightarrow> string"
    \<comment> \<open>\<^verbatim>\<open>error.stack\<close>, a text the runtime makes\<close>

record AISettings =
  temperature :: rat
  max_tokens :: nat
  top_p :: rat
  frequency_penalty :: rat
  presence_penalty :: rat

record prompt =
  system :: string
  user :: string

text \<open>The argument of \<^verbatim>\<open>openai.chat.completions.create\<close>.\<close>

record chat_request =
  model :: string
  messages :: "(string \<times> string) list"
  req_temperature :: rat
  req_max_tokens :: nat
  req_top_p :: rat
  req_frequency_penalty :: rat
  req_presence_penalty :: rat

text \<open>
  The external model is a parameter: a function from the request to what the call does,
  \<open>Inl\<close> a thrown value or \<open>Inr\<close> the text \<^verbatim>\<open>completion.choices[0]?.message?.content\<close>
  (\<open>None\<close> when that is missing).
\<close>

type_synonym openai_client = "chat_request \<Rightarrow> thrown + string option"

section \<open>The parts that both route files share, word for word\<close>

definition getAISettings :: AISettings where
  "getAISettings =
     \<lparr>temperature = 4 / 10, max_tokens = 10, top_p = 9 / 10,
      frequency_penalty = 1 / 2, presence_penalty = 1 / 2\<rparr>"

definition createChessGame :: "chess_js \<Rightarrow> string \<Rightarrow> thrown + Chess" where
  "createChessGame L fen_string =
     (case new_Chess L fen_string of
        Inl msg \<Rightarrow> Inl (Error msg)
      | Inr game \<Rightarrow>
          if isGameOver game \<or> isDraw game then Inl (Error ''Game is already over'')
          else Inr game)"

definition validateMove :: "chess_js \<Rightarrow> rat \<Rightarrow> string \<Rightarrow> string \<Rightarrow> string list \<Rightarrow> string option" where
  \<comment> \<open>the \<^verbatim>\<open>try\<close> covers both the constructor and \<^verbatim>\<open>move\<close>; \<open>None\<close> is the
      \<^verbatim>\<open>undefined\<close> that the fallback reads from an empty list\<close>
  "validateMove L rnd fen_string mv legalMoves =
     (case new_Chess L fen_string of
        Inl _ \<Rightarrow> pick rnd legalMoves
      | Inr game \<Rightarrow>
          (case move L game (Some (JStr mv)) of
             Inl _ \<Rightarrow> pick rnd legalMoves
           | Inr _ \<Rightarrow> Some mv))"

definition count_pieces :: "Piece option list list \<Rightarrow> Color \<Rightarrow> PieceSymbol \<Rightarrow> nat" where
  \<comment> \<open>\<^verbatim>\<open>board.flat().filter(p => p?.color === c && p.type === t).length\<close>\<close>
  "count_pieces b c t =
     length (filter (\<lambda>p. case p of None \<Rightarrow> False | Some q \<Rightarrow> p_color q = c \<and> p_type q = t)
               (concat b))"

definition turn_upper :: "Chess \<Rightarrow> string" where
  \<comment> \<open>\<^verbatim>\<open>game.turn().toUpperCase()\<close>\<close>
  "turn_upper game = (if turn game = White then ''W'' else ''B'')"

definition isOpening :: "Chess \<Rightarrow> bool" where
  "isOpening game = (length (history game) < 10)"

definition isEndgame :: "Chess \<Rightarrow> bool" where
  "isEndgame game = (length (history game) > 30)"

definition gamePhase :: "Chess \<Rightarrow> string" where
  \<comment> \<open>\<^verbatim>\<open>isOpening ? 'Opening' : isEndgame ? 'Endgame' : 'Middlegame'\<close>\<close>
  "gamePhase game =
     (if isOpening game then ''Opening'' else if isEndgame game then ''Endgame'' else ''Middlegame'')"

definition completion_request :: "string \<Rightarrow> AISettings \<Rightarrow> prompt \<Rightarrow> chat_request" where
  \<comment> \<open>the object passed to \<^verbatim>\<open>openai.chat.completions.create\<close>\<close>
  "completion_request model_name settings p =
     \<lparr>model = model_name,
      messages = [(''system'', system p), (''user'', user p)],
      req_temperature = temperature settings,
      req_max_tokens = max_tokens settings,
      req_top_p = top_p settings,
      req_frequency_penalty = frequency_penalty settings,
      req_presence_penalty = presence_penalty settings\<rparr>"

definition quota_response :: "rat \<Rightarrow> string list \<Rightarrow> thrown \<Rightarrow> response" where
  \<comment> \<open>the reply of the \<^verbatim>\<open>catch (apiError)\<close> block on a quota or rate-limit error\<close>
  "quota_response rnd legalMoves apiError =
     \<lparr>status = 200,
      body = json_body
        [(''move'', map_option JStr (pick rnd legalMoves)),
         (''warning'', Some (JStr ''Using random move due to API limits'')),
         (''originalError'', map_option JStr (message apiError))]\<rparr>"

definition move_response :: "string option \<Rightarrow> Chess \<Rightarrow> response" where
  \<comment> \<open>the \<^verbatim>\<open>response\<close> object built after the validated move has been played\<close>
  "move_response validatedMove gameAfterMove =
     (let turn_name = (if turn gameAfterMove = White then ''white'' else ''black'')
      in \<lparr>status = 200,
          body = json_body
            ([(''move'', map_option JStr validatedMove),
              (''turn'', Some (JStr turn_name)),
              (''inCheck'', Some (JBool (isCheck gameAfterMove))),
              (''gameOver'', Some (JBool False))]
             @ (if isCheck gameAfterMove
                then [(''message'',
                       Some (JStr (''Check! ''
                         @ (if turn_name = ''white'' then ''White'' else ''Black'')
                         @ '' is in check.'')))]
                else []))\<rparr>)"

definition after_completion ::
  "chess_js \<Rightarrow> rat \<Rightarrow> string \<Rightarrow> string list \<Rightarrow> thrown + string option \<Rightarrow> thrown + response" where
  \<comment> \<open>what \<^verbatim>\<open>POST\<close> does with the outcome of the call of the external model: the
      \<^verbatim>\<open>catch (apiError)\<close> block, then the validation of the move and the reply\<close>
  "after_completion L rnd fen_string legalMoves outcome =
     (case outcome of
        Inl apiError \<Rightarrow>
          if code apiError = Some ''insufficient_quota'' \<or> http_status apiError = Some 429
          then Inr (quota_response rnd legalMoves apiError)
          else Inl apiError
      | Inr content \<Rightarrow>
          (case map_option trim content of
             None \<Rightarrow> Inl (Error ''No move returned from AI'')
           | Some mv \<Rightarrow>
               if mv = [] then Inl (Error ''No move returned from AI'')
               else
                 (let validatedMove = validateMove L rnd fen_string mv legalMoves
                  in case createChessGame L fen_string of
                       Inl e \<Rightarrow> Inl e
                     | Inr fresh \<Rightarrow>
                         (case move L fresh (map_option JStr validatedMove) of
                            Inl msg \<Rightarrow> Inl (Error msg)
                          | Inr gameAfterMove \<Rightarrow> Inr (move_response validatedMove gameAfterMove)))))"

definition game_over_response :: "Chess \<Rightarrow> response option" where
  \<comment> \<open>the three status checks of \<^verbatim>\<open>POST\<close> after \<^verbatim>\<open>createChessGame\<close>, in their
      order; \<open>None\<close> when none of them replies\<close>
  "game_over_response game =
     (if isCheckmate game then
        (let winner = (if turn game = White then ''Black'' else ''White'')
         in Some \<lparr>status = 200,
                   body = json_body
                     [(''error'', Some (JStr (''Checkmate! '' @ winner @ '' wins!''))),
                      (''gameOver'', Some (JBool True)),
                      (''winner'', Some (JStr winner)),
                      (''reason'', Some (JStr ''checkmate''))]\<rparr>)
      else if isDraw game then
        (let reason = (if isStalemate game then ''stalemate''
                       else if isThreefoldRepetition game then ''threefold repetition''
                       else if isInsufficientMaterial game then ''insufficient material''
                       else ''draw'')
         in Some \<lparr>status = 200,
                   body = json_body
                     [(''error'', Some (JStr ''Game drawn'')),
                      (''gameOver'', Some (JBool True)),
                      (''winner'', Some JNull),
                      (''reason'', Some (JStr reason))]\<rparr>)
      else if isGameOver game then
        Some \<lparr>status = 200,
               body = json_body
                 [(''error'', Some (JStr ''Game over'')),
                  (''gameOver'', Some (JBool True)),
                  (''winner'', Some JNull),
                  (''reason'', Some (JStr ''unknown''))]\<rparr>
      else None)"

definition handle_fen ::
  "(string list \<Rightarrow> string) \<Rightarrow> (chess_js \<Rightarrow> string \<Rightarrow> string list \<Rightarrow> thrown + prompt) \<Rightarrow>
   chess_js \<Rightarrow> openai_client \<Rightarrow> rat \<Rightarrow> string \<Rightarrow> thrown + response" where
  \<comment> \<open>the inner \<^verbatim>\<open>try\<close> of \<^verbatim>\<open>POST\<close> (its \<^verbatim>\<open>catch\<close> rethrows). The two routes
      differ in how they call \<^verbatim>\<open>selectModel\<close> and in their \<^verbatim>\<open>getChessPrompt\<close>,
      which are the first two arguments.\<close>
  "handle_fen select_model build_prompt L openai rnd fen_string =
     (case createChessGame L fen_string of
        Inl e \<Rightarrow> Inl e
      | Inr game \<Rightarrow>
          (let legalMoves = moves game
           in case game_over_response game of
                Some r \<Rightarrow> Inr r
              | None \<Rightarrow>
                  (case build_prompt L fen_string legalMoves of
                     Inl e \<Rightarrow> Inl e
                   | Inr p \<Rightarrow>
                       after_completion L rnd fen_string legalMoves
                         (openai (completion_request (select_model legalMoves) getAISettings p)))))"

definition POST_try ::
  "(string list \<Rightarrow> string) \<Rightarrow> (chess_js \<Rightarrow> string \<Rightarrow> string list \<Rightarrow> thrown + prompt) \<Rightarrow>
   chess_js \<Rightarrow> openai_client \<Rightarrow> rat \<Rightarrow> request_body \<Rightarrow> thrown + response" where
  \<comment> \<open>the outer \<^verbatim>\<open>try\<close> of \<^verbatim>\<open>POST\<close>. Destructuring \<^verbatim>\<open>null\<close> throws a
      \<^verbatim>\<open>TypeError\<close>, whose message is the one of the V8 engine.\<close>
  "POST_try select_model build_prompt L openai rnd request =
     (case request of
        Unparseable \<Rightarrow>
          Inr \<lparr>status = 400, body = json_body [(''error'', Some (JStr ''Invalid JSON in request body''))]\<rparr>
      | JsonNull \<Rightarrow>
          Inl (Error ''Cannot destructure property 'fen' of 'requestBody' as it is null.'')
      | JsonValue fen_field \<Rightarrow>
          (case fen_field of
             None \<Rightarrow>
               Inr \<lparr>status = 400, body = json_body [(''error'', Some (JStr ''FEN string is required''))]\<rparr>
           | Some fen_string \<Rightarrow>
               if fen_string = [] then
                 Inr \<lparr>status = 400, body = json_body [(''error'', Some (JStr ''FEN string is required''))]\<rparr>
               else handle_fen select_model build_prompt L openai rnd fen_string))"

definition POST_catch :: "environment \<Rightarrow> thrown \<Rightarrow> response" where
  \<comment> \<open>the outer \<^verbatim>\<open>catch (error)\<close> of \<^verbatim>\<open>POST\<close>\<close>
  "POST_catch env error =
     (let errorMessage = (case message error of
                            Some msg \<Rightarrow> if is_Error error then msg else ''Failed to get AI move''
                          | None \<Rightarrow> ''Failed to get AI move'');
          statusCode = (if str_includes (toLowerCase errorMessage) ''already over''
                           \<or> str_includes (toLowerCase errorMessage) ''invalid fen''
                        then 400 else 500)
      in \<lparr>status = statusCode,
          body = json_body
            ([(''error'', Some (JStr errorMessage)),
              (''gameOver'', Some (JBool (str_includes errorMessage ''Game over''
                                          \<or> str_includes errorMessage ''Checkmate''
                                          \<or> str_includes errorMessage ''drawn'')))]
             @ (if NODE_ENV env = Some ''development'' \<and> is_Error error
                then [(''stack'', Some (JStr (stack_trace env error)))] else []))\<rparr>)"

definition route_POST ::
  "(string list \<Rightarrow> string) \<Rightarrow> (chess_js \<Rightarrow> string \<Rightarrow> string list \<Rightarrow> thrown + prompt) \<Rightarrow>
   chess_js \<Rightarrow> environment \<Rightarrow> openai_client \<Rightarrow> rat \<Rightarrow> request_body \<Rightarrow> response" where
  "route_POST select_model build_prompt L env openai rnd request =
     (case POST_try select_model build_prompt L openai rnd request of
        Inr r \<Rightarrow> r
      | Inl error \<Rightarrow> POST_catch env error)"

section \<open>The route /api/chess-move\<close>

definition selectModel :: "nat \<Rightarrow> string" where
  "selectModel moveCount = (if moveCount > 30 then ''gpt-4'' else ''gpt-3.5-turbo'')"

definition material_json :: "Piece option list list \<Rightarrow> string" where
  \<comment> \<open>\<^verbatim>\<open>JSON.stringify(material, null, 2)\<close>\<close>
  \<open>material_json b =
     (let side = (\<lambda>c.
            ''{\<newline>''
          @ ''    "pawn": '' @ show_nat (count_pieces b c Pawn) @ '',\<newline>''
          @ ''    "knight": '' @ show_nat (count_pieces b c Knight) @ '',\<newline>''
          @ ''    "bishop": '' @ show_nat (count_pieces b c Bishop) @ '',\<newline>''
          @ ''    "rook": '' @ show_nat (count_pieces b c Rook) @ '',\<newline>''
          @ ''    "queen": '' @ show_nat (count_pieces b c Queen) @ ''\<newline>''
          @ ''  }'')
      in ''{\<newline>''
       @ ''  "white": '' @ side White @ '',\<newline>''
       @ ''  "black": '' @ side Black @ ''\<newline>''
       @ ''}'')\<close>

definition phaseInstructions :: "Chess \<Rightarrow> string" where
  "phaseInstructions game =
     (if isOpening game
      then ''Focus on controlling the center and developing pieces. Consider standard opening principles.''
      else if isEndgame game
      then ''Focus on king activation, pawn promotion, and opposition. Simplify to a winning endgame if possible.''
      else ''Focus on piece coordination, weak squares, and tactical opportunities. Consider pawn breaks and piece activity.'')"

definition getChessPrompt :: "chess_js \<Rightarrow> string \<Rightarrow> string list \<Rightarrow> thrown + prompt" where
  "getChessPrompt L fen_string legalMoves =
     (case new_Chess L fen_string of
        Inl msg \<Rightarrow> Inl (Error msg)
      | Inr game \<Rightarrow>
          Inr \<lparr>system =
                  ''You are Magnus Carlsen, the reigning World Chess Champion. \<newline>''
                @ ''    - You are playing as ''
                @ turn_upper game
                @ '' in this position.\<newline>''
                @ ''    - You must respond with ONLY a valid move in algebraic notation from: ''
                @ join '', '' legalMoves
                @ ''\<newline>''
                @ ''    - Think carefully about the position and choose the strongest move.\<newline>''
                @ ''    - Consider both tactical and strategic elements of the position.\<newline>''
                @ ''    - If you see a forced mate or significant material gain, play it immediately.'',
               user =
                  ''[Game Context]\<newline>''
                @ ''- Position: ''
                @ fen_string
                @ ''\<newline>''
                @ ''- Turn: ''
                @ turn_upper game
                @ ''\<newline>''
                @ ''- Game Phase: ''
                @ gamePhase game
                @ ''\<newline>''
                @ ''- Material Balance: ''
                @ material_json (board game)
                @ ''\<newline>''
                @ ''\<newline>''
                @ ''[Positional Evaluation]\<newline>''
                @ ''1. King Safety: ''
                @ (if isCheck game then ''King is in check!'' else ''King is safe'')
                @ ''\<newline>''
                @ ''2. Piece Activity: ''
                @ (if isCheckmate game then ''Checkmate!'' else if isDraw game then ''Draw position'' else ''Game in progress'')
                @ ''\<newline>''
                @ ''3. Pawn Structure: ''
                @ (if isStalemate game then ''Stalemate'' else ''Normal'')
                @ ''\<newline>''
                @ ''4. Tactical Opportunities: ''
                @ (if isStalemate game then ''No legal moves'' else ''Evaluate tactics'')
                @ ''\<newline>''
                @ ''5. Long-term Plans: ''
                @ phaseInstructions game
                @ ''\<newline>''
                @ ''\<newline>''
                @ ''[Available Moves]\<newline>''
                @ join '', '' legalMoves
                @ ''\<newline>''
                @ ''\<newline>''
                @ ''[Instructions]\<newline>''
                @ ''1. Analyze the position carefully\<newline>''
                @ ''2. Consider candidate moves\<newline>''
                @ ''3. Evaluate each candidate\<newline>''
                @ ''4. Choose the strongest move\<newline>''
                @ ''5. Respond ONLY with the move in algebraic notation (e.g., e4, Nf3, O-O)\<newline>''
                @ ''\<newline>''
                @ ''[Think step by step before responding]''\<rparr>)"

definition POST ::
  "chess_js \<Rightarrow> environment \<Rightarrow> openai_client \<Rightarrow> rat \<Rightarrow> request_body \<Rightarrow> response" where
  "POST = route_POST (\<lambda>legalMoves. selectModel (length legalMoves)) getChessPrompt"

section \<open>The route /api/chess-move-2\<close>

text \<open>
  The second route file has the richer prompt. Squares are the library's \<^verbatim>\<open>Square\<close>
  strings (a file letter and a rank digit); the helpers below read their first and second
  character. \<^verbatim>\<open>Math.round\<close> is taken on exact rationals.
\<close>

definition show_int :: "int \<Rightarrow> string" where
  "show_int i = (if i < 0 then ''-'' @ show_nat (nat (- i)) else show_nat (nat i))"

definition or_text :: "string \<Rightarrow> string \<Rightarrow> string" where
  \<comment> \<open>\<^verbatim>\<open>s || d\<close> on a string: the empty string is falsy\<close>
  "or_text s d = (if s = [] then d else s)"

definition opposite :: "Color \<Rightarrow> Color" where
  "opposite c = (if c = White then Black else White)"

definition piece_letter :: "PieceSymbol \<Rightarrow> string" where
  "piece_letter t =
     (case t of Pawn \<Rightarrow> ''p'' | Knight \<Rightarrow> ''n'' | Bishop \<Rightarrow> ''b'' | Rook \<Rightarrow> ''r'' | Queen \<Rightarrow> ''q'' | King \<Rightarrow> ''k'')"

definition piece_upper :: "PieceSymbol \<Rightarrow> string" where
  \<comment> \<open>\<^verbatim>\<open>move.piece.toUpperCase()\<close>\<close>
  "piece_upper t =
     (case t of Pawn \<Rightarrow> ''P'' | Knight \<Rightarrow> ''N'' | Bishop \<Rightarrow> ''B'' | Rook \<Rightarrow> ''R'' | Queen \<Rightarrow> ''Q'' | King \<Rightarrow> ''K'')"

definition arrow :: string where
  \<comment> \<open>the UTF-8 bytes of the arrow character of the source text\<close>
  "arrow = [CHR 0xE2, CHR 0x86, CHR 0x92]"

definition rank_neighbour :: "string \<Rightarrow> int \<Rightarrow> string" where
  \<comment> \<open>\<^verbatim>\<open>`${sq[0]}${parseInt(sq[1]) + d}`\<close>\<close>
  "rank_neighbour sq d =
     take 1 sq @
     (case drop 1 sq of
        [] \<Rightarrow> ''NaN''
      | c # _ \<Rightarrow>
          (case map_of (zip ''0123456789'' [0, 1, 2, 3, 4, 5, 6, 7, 8, 9 :: int]) c of
             None \<Rightarrow> ''NaN''
           | Some n \<Rightarrow> show_int (n + d)))"

definition evaluateKingSafety :: "Chess \<Rightarrow> Color \<Rightarrow> string" where
  "evaluateKingSafety game color =
     (case find (\<lambda>sq. case sq of None \<Rightarrow> False | Some p \<Rightarrow> p_type p = King \<and> p_color p = color)
             (concat (board game)) of
        Some (Some kingPiece) \<Rightarrow>
          if p_square kingPiece = [] then ''King not found''
          else
            (let kingSquare = p_square kingPiece;
                 isKingInCorner = (kingSquare \<in> set [''a1'', ''h1'', ''a8'', ''h8'']);
                 isKingInCenter = (kingSquare \<in> set [''e4'', ''e5'', ''d4'', ''d5'']);
                 pawnShield =
                   (case get game (rank_neighbour kingSquare (if p_color kingPiece = White then 1 else - 1)) of
                      None \<Rightarrow> False
                    | Some q \<Rightarrow> p_type q = Pawn)
             in ''King on '' @ kingSquare @ '', ''
                @ (if isKingInCorner then ''castled'' else if isKingInCenter then ''in center'' else ''developing'')
                @ '', '' @ (if pawnShield then ''with pawn shield'' else ''exposed''))
      | _ \<Rightarrow> ''King not found'')"

definition pieces_of :: "Chess \<Rightarrow> Color \<Rightarrow> Piece list" where
  \<comment> \<open>\<^verbatim>\<open>game.board().flat().filter(sq => sq !== null && sq.color === color)\<close>\<close>
  "pieces_of game color = filter (\<lambda>p. p_color p = color) (List.map_filter id (concat (board game)))"

definition evaluatePieceActivity :: "Chess \<Rightarrow> Color \<Rightarrow> string" where
  "evaluatePieceActivity game color =
     (let pieces = pieces_of game color;
          activePieces = filter (\<lambda>p. length (moves_square game (p_square p)) > 0) pieces;
          pieceCount = length pieces;
          activeCount = length activePieces;
          activity = (if pieceCount > 0
                      then \<lfloor>(of_nat activeCount / of_nat pieceCount :: rat) * 100 + 1 / 2\<rfloor>
                      else 0)
      in show_int activity @ ''% of pieces active ('' @ show_nat activeCount @ ''/''
         @ show_nat pieceCount @ '')'')"

definition shift_char :: "string \<Rightarrow> int \<Rightarrow> string" where
  \<comment> \<open>\<^verbatim>\<open>String.fromCharCode(f.charCodeAt(0) + d)\<close>\<close>
  "shift_char f d = map (\<lambda>c. char_of (of_char c + d)) (take 1 f)"

definition evaluatePawnStructure :: "Chess \<Rightarrow> Color \<Rightarrow> string" where
  "evaluatePawnStructure game color =
     (let pawns = map p_square (filter (\<lambda>p. p_type p = Pawn) (pieces_of game color))
      in if length pawns = 0 then ''No pawns''
         else
           (let files = remdups (map (take 1) pawns);
                doubledPawns = length pawns - length files;
                isolatedPawns =
                  length (filter (\<lambda>f. shift_char f (- 1) \<notin> set files \<and> shift_char f 1 \<notin> set files) files)
            in show_nat (length pawns) @ '' pawns, '' @ show_nat doubledPawns @ '' doubled, ''
               @ show_nat isolatedPawns @ '' isolated''))"

definition evaluateOpenFiles :: "Chess \<Rightarrow> string" where
  "evaluateOpenFiles game =
     (let files = [''a'', ''b'', ''c'', ''d'', ''e'', ''f'', ''g'', ''h''];
          openFiles =
            filter (\<lambda>file. \<not> list_ex (\<lambda>rank. list_ex (\<lambda>sq. case sq of
                                                               None \<Rightarrow> False
                                                             | Some p \<Rightarrow> p_type p = Pawn \<and> prefix file (p_square p))
                                                    rank)
                                (board game))
              files
      in if length openFiles > 0 then join '', '' openFiles else ''No open files'')"

definition identifyWeakSquares :: "Chess \<Rightarrow> Color \<Rightarrow> string" where
  "identifyWeakSquares game color =
     (let opponent = (if color = White then Black else White);
          weakSquares =
            concat (map (\<lambda>(rankIdx, rank).
                       List.map_filter (\<lambda>(fileIdx, square).
                           case square of
                             Some _ \<Rightarrow> None
                           | None \<Rightarrow>
                               (let squareName = [char_of (97 + fileIdx)] @ show_int (8 - int rankIdx)
                                in case get game squareName of
                                     None \<Rightarrow> None
                                   | Some inFront \<Rightarrow>
                                       if p_type inFront = Pawn \<and> p_color inFront = opponent
                                       then Some squareName else None))
                         (enumerate 0 rank))
                     (enumerate (0::nat) (board game)))
      in if length weakSquares > 0 then join '', '' weakSquares else ''No obvious weak squares'')"

definition selectModel2 :: string where
  "selectModel2 = ''gpt-4''"

definition phaseInstructions2 :: "Chess \<Rightarrow> string" where
  "phaseInstructions2 game =
     (if isOpening game
      then ''Focus on controlling the center (e4, e5, d4, d5), developing minor pieces (knights before bishops), and castling early. Avoid moving the same piece multiple times in the opening.''
      else if isEndgame game
      then ''Activate your king, create passed pawns, and use the opposition. Calculate concrete variations carefully. Remember: king activity is crucial in endgames.''
      else ''Look for tactical opportunities (forks, pins, skewers). Improve your worst placed piece. Control open files and strong squares. Consider pawn breaks.'')"

definition lastMove_text :: "Move list \<Rightarrow> string" where
  "lastMove_text moveHistory =
     (case moveHistory of
        [] \<Rightarrow> ''Game start''
      | _ # _ \<Rightarrow>
          (let lastMove = last moveHistory
           in (if m_color lastMove = White then ''White'' else ''Black'') @ '' played '' @ m_san lastMove
              @ '' ('' @ piece_upper (m_piece lastMove) @ '' '' @ m_from lastMove @ arrow @ m_to lastMove
              @ '')''))"

definition recentMoves :: "Move list \<Rightarrow> string" where
  \<comment> \<open>\<^verbatim>\<open>moveHistory.slice(-6).map(...).join('\n')\<close>\<close>
  "recentMoves moveHistory =
     join ''\<newline>''
       (map (\<lambda>(i, mv). show_int (int (length moveHistory) - 5 + int i) @ ''. ''
                        @ (if m_color mv = White then ''..'' else []) @ m_san mv
                        @ '' ('' @ m_from mv @ arrow @ m_to mv @ '')'')
          (enumerate 0 (drop (length moveHistory - 6) moveHistory)))"

definition getPieceValue :: "PieceSymbol \<Rightarrow> nat" where
  "getPieceValue piece =
     (case [Pawn \<mapsto> 1, Knight \<mapsto> 3, Bishop \<mapsto> 3, Rook \<mapsto> 5, Queen \<mapsto> 9, King \<mapsto> 0] piece of
        None \<Rightarrow> 0 | Some v \<Rightarrow> v)"

definition isSquareDefended :: "chess_js \<Rightarrow> Chess \<Rightarrow> string \<Rightarrow> Color \<Rightarrow> thrown + bool" where
  "isSquareDefended L game sq byColor =
     (case new_Chess L (fen game) of
        Inl msg \<Rightarrow> Inl (Error msg)
      | Inr tempGame \<Rightarrow>
          Inr (list_ex (\<lambda>mv. m_to mv = sq \<and> m_color mv = byColor) (moves_verbose tempGame)))"

record hanging_piece =
  h_piece :: string
  h_from :: string
  h_to :: string
  h_captured :: PieceSymbol
  h_value :: nat
  h_defended :: bool

fun hanging_entries :: "chess_js \<Rightarrow> Chess \<Rightarrow> Color \<Rightarrow> Move list \<Rightarrow> thrown + hanging_piece list" where
  \<comment> \<open>the \<^verbatim>\<open>.map\<close> over the filtered moves and the \<^verbatim>\<open>.filter\<close> that drops its
      \<^verbatim>\<open>null\<close>s; a throw inside the callback ends the whole computation\<close>
  "hanging_entries L game currentColor [] = Inr []"
| "hanging_entries L game currentColor (mv # rest) =
     (case m_captured mv of
        None \<Rightarrow> hanging_entries L game currentColor rest
      | Some capturedPiece \<Rightarrow>
          (case isSquareDefended L game (m_to mv) currentColor of
             Inl e \<Rightarrow> Inl e
           | Inr d \<Rightarrow>
               (case hanging_entries L game currentColor rest of
                  Inl e \<Rightarrow> Inl e
                | Inr hs \<Rightarrow>
                    Inr (\<lparr>h_piece = piece_upper (m_piece mv), h_from = m_from mv, h_to = m_to mv,
                          h_captured = capturedPiece, h_value = getPieceValue capturedPiece,
                          h_defended = d\<rparr> # hs))))"

definition hangingPieces :: "chess_js \<Rightarrow> Chess \<Rightarrow> thrown + hanging_piece list" where
  \<comment> \<open>the list and its \<^verbatim>\<open>sort((a, b) => b.value - a.value)\<close>, which is stable\<close>
  "hangingPieces L game =
     (let currentColor = turn game;
          opponentColor = (if currentColor = White then Black else White);
          allMoves = moves_verbose game
      in case hanging_entries L game currentColor
                (filter (\<lambda>mv. m_captured mv \<noteq> None \<and> m_color mv = opponentColor) allMoves) of
           Inl e \<Rightarrow> Inl e
         | Inr hs \<Rightarrow> Inr (sort_key (\<lambda>h. - int (h_value h)) hs))"

definition hangingPiecesInfo :: "hanging_piece list \<Rightarrow> string" where
  "hangingPiecesInfo hanging =
     join ''\<newline>''
       (map (\<lambda>p. h_piece p @ '' on '' @ h_to p @ '' (value: '' @ show_nat (h_value p)
                  @ (if h_defended p then '', but defended'' else []) @ '')'')
          hanging)"

definition threat_text :: "Move \<Rightarrow> string" where
  "threat_text mv =
     (case m_captured mv of
        Some c \<Rightarrow> piece_upper (m_piece mv) @ m_from mv @ '' takes '' @ piece_letter c @ '' on '' @ m_to mv
      | None \<Rightarrow> piece_upper (m_piece mv) @ m_from mv @ '' gives check to '' @ m_to mv)"

definition threats_of :: "Chess \<Rightarrow> Color \<Rightarrow> string list" where
  "threats_of game c =
     map threat_text
       (filter (\<lambda>mv. (m_captured mv \<noteq> None \<or> str_includes (m_san mv) ''+'') \<and> m_color mv = c)
          (moves_verbose game))"

definition opponentThreats :: "Chess \<Rightarrow> string list" where
  "opponentThreats game = threats_of game (opposite (turn game))"

definition ourThreats :: "Chess \<Rightarrow> string list" where
  "ourThreats game = threats_of game (turn game)"

definition system_prompt2 :: "Chess \<Rightarrow> string list \<Rightarrow> string" where
  \<open>system_prompt2 game legalMoves =
        ''You are Magnus Carlsen, the World Chess Champion. You are playing as ''
      @ turn_upper game
      @ '' in this game. \<newline>''
      @ ''\<newline>''
      @ ''CHESS PRINCIPLES TO FOLLOW:\<newline>''
      @ ''1. Safety First: Always check for hanging pieces before making a move. Defend your pieces and attack undefended enemy pieces.\<newline>''
      @ ''2. Material: ''
      @ (if count_pieces (board game) White Queen + count_pieces (board game) Black Queen = 0 then ''Endgame - focus on king activity and pawn promotion'' else ''Middlegame - look for tactical opportunities'')
      @ ''\<newline>''
      @ ''3. Development: Ensure all your pieces are developed and your king is safe\<newline>''
      @ ''4. King Safety: ''
      @ evaluateKingSafety game (turn game)
      @ ''\<newline>''
      @ ''5. Pawn Structure: ''
      @ evaluatePawnStructure game (turn game)
      @ ''\<newline>''
      @ ''6. Piece Activity: ''
      @ evaluatePieceActivity game (turn game)
      @ ''\<newline>''
      @ ''\<newline>''
      @ ''IMPORTANT: Before making any move, check:\<newline>''
      @ ''- Are any of your pieces under attack? If yes, move or defend them.\<newline>''
      @ ''- Can you capture any undefended enemy pieces?\<newline>''
      @ ''- Will your move leave any of your pieces undefended?\<newline>''
      @ ''- Can your opponent capture any of your pieces after your move?\<newline>''
      @ ''\<newline>''
      @ ''THINKING PROCESS:\<newline>''
      @ ''1. First, evaluate the position:\<newline>''
      @ ''   - Material count (you ''
      @ show_nat (count_pieces (board game) (turn game) Queen)
      @ ''Q ''
      @ show_nat (count_pieces (board game) (turn game) Rook)
      @ ''R ''
      @ show_nat (count_pieces (board game) (turn game) Bishop)
      @ ''B ''
      @ show_nat (count_pieces (board game) (turn game) Knight)
      @ ''N ''
      @ show_nat (count_pieces (board game) (turn game) Pawn)
      @ ''P vs opponent ''
      @ show_nat (count_pieces (board game) (opposite (turn game)) Queen)
      @ ''Q ''
      @ show_nat (count_pieces (board game) (opposite (turn game)) Rook)
      @ ''R ''
      @ show_nat (count_pieces (board game) (opposite (turn game)) Bishop)
      @ ''B ''
      @ show_nat (count_pieces (board game) (opposite (turn game)) Knight)
      @ ''N ''
      @ show_nat (count_pieces (board game) (opposite (turn game)) Pawn)
      @ ''P)\<newline>''
      @ ''   - King safety for both sides\<newline>''
      @ ''   - Piece activity and coordination\<newline>''
      @ ''   - Pawn structure and weak squares\<newline>''
      @ ''   - Open files and diagonals\<newline>''
      @ ''\<newline>''
      @ ''2. Calculate forcing moves first:\<newline>''
      @ ''   - Checks: ''
      @ or_text (join '', '' (map m_san (filter (\<lambda>m. str_includes (m_san m) ''+'') (moves_verbose game)))) ''No checks available''
      @ ''\<newline>''
      @ ''   - Captures: ''
      @ or_text (join '', '' (map m_san (filter (\<lambda>m. m_captured m \<noteq> None) (moves_verbose game)))) ''No captures available''
      @ ''\<newline>''
      @ ''   - Threats: ''
      @ (if length (ourThreats game) > 0 then join '', '' (ourThreats game) else ''No immediate threats'')
      @ ''\<newline>''
      @ ''\<newline>''
      @ ''3. Consider these candidate moves (from legal moves): ''
      @ join '', '' (take 5 legalMoves)
      @ (if length legalMoves > 5 then '' and '' @ show_nat (length legalMoves - 5) @ '' more'' else [])
      @ ''\<newline>''
      @ ''\<newline>''
      @ ''4. Analyze your opponent's best response to each candidate move\<newline>''
      @ ''\<newline>''
      @ ''5. Choose the move that improves your position the most while considering your opponent's best reply\<newline>''
      @ ''\<newline>''
      @ ''6. Before finalizing, check for:\<newline>''
      @ ''   - Hanging pieces\<newline>''
      @ ''   - Tactical shots (forks, pins, skewers)\<newline>''
      @ ''   - King safety\<newline>''
      @ ''   - Pawn breaks\<newline>''
      @ ''\<newline>''
      @ ''7. Format your response with ONLY the move in algebraic notation (e.g., "e4", "Nf3", "O-O")''\<close>

definition user_prompt2 :: "Chess \<Rightarrow> string list \<Rightarrow> hanging_piece list \<Rightarrow> string" where
  \<open>user_prompt2 game legalMoves hanging =
        ''[POSITION AFTER ''
      @ show_nat (length (history game))
      @ '' MOVES]\<newline>''
      @ ascii game
      @ ''\<newline>''
      @ ''\<newline>''
      @ ''[GAME CONTEXT]\<newline>''
      @ ''- Turn: ''
      @ turn_upper game
      @ '' to move\<newline>''
      @ ''- Phase: ''
      @ gamePhase game
      @ ''\<newline>''
      @ ''- Check: ''
      @ (if isCheck game then ''YES - You are in check! Must get out of check.'' else ''No'')
      @ ''\<newline>''
      @ ''- Last move: ''
      @ lastMove_text (history game)
      @ ''\<newline>''
      @ ''- Recent moves:\<newline>''
      @ or_text (recentMoves (history game)) ''No moves yet''
      @ ''\<newline>''
      @ ''\<newline>''
      @ ''[MATERIAL COUNT]\<newline>''
      @ ''- White: ''
      @ show_nat (count_pieces (board game) White Queen)
      @ ''Q ''
      @ show_nat (count_pieces (board game) White Rook)
      @ ''R ''
      @ show_nat (count_pieces (board game) White Bishop)
      @ ''B ''
      @ show_nat (count_pieces (board game) White Knight)
      @ ''N ''
      @ show_nat (count_pieces (board game) White Pawn)
      @ ''P\<newline>''
      @ ''- Black: ''
      @ show_nat (count_pieces (board game) Black Queen)
      @ ''Q ''
      @ show_nat (count_pieces (board game) Black Rook)
      @ ''R ''
      @ show_nat (count_pieces (board game) Black Bishop)
      @ ''B ''
      @ show_nat (count_pieces (board game) Black Knight)
      @ ''N ''
      @ show_nat (count_pieces (board game) Black Pawn)
      @ ''P\<newline>''
      @ ''\<newline>''
      @ ''[POSITIONAL FACTORS]\<newline>''
      @ ''1. King Safety: ''
      @ evaluateKingSafety game (turn game)
      @ ''\<newline>''
      @ ''2. Piece Activity: ''
      @ evaluatePieceActivity game (turn game)
      @ ''\<newline>''
      @ ''3. Pawn Structure: ''
      @ evaluatePawnStructure game (turn game)
      @ ''\<newline>''
      @ ''4. Open Files: ''
      @ evaluateOpenFiles game
      @ ''\<newline>''
      @ ''5. Weak Squares: ''
      @ identifyWeakSquares game (turn game)
      @ ''\<newline>''
      @ ''\<newline>''
      @ ''[IMMEDIATE CONSIDERATIONS]\<newline>''
      @ (if isCheck game then [CHR 0xE2, CHR 0x80, CHR 0xA2] @ '' '' @ [CHR 0xE2, CHR 0x9A, CHR 0xA0] @ [CHR 0xEF, CHR 0xB8, CHR 0x8F] @ '' YOU ARE IN CHECK! You must get out of check.\<newline>'' else [])
      @ (if length hanging > 0 then [CHR 0xE2, CHR 0x80, CHR 0xA2] @ '' '' @ [CHR 0xE2, CHR 0x9A, CHR 0xA0] @ [CHR 0xEF, CHR 0xB8, CHR 0x8F] @ '' HANGING PIECES (save yours, capture opponent's):\<newline>'' @ hangingPiecesInfo hanging @ ''\<newline>'' else [])
      @ (if length (opponentThreats game) > 0 then [CHR 0xE2, CHR 0x80, CHR 0xA2] @ '' Opponent threats: '' @ join '', '' (opponentThreats game) @ ''\<newline>'' else [])
      @ (if length (ourThreats game) > 0 then [CHR 0xE2, CHR 0x80, CHR 0xA2] @ '' Your threats: '' @ join '', '' (ourThreats game) @ ''\<newline>'' else [])
      @ [CHR 0xE2, CHR 0x80, CHR 0xA2]
      @ '' ''
      @ phaseInstructions2 game
      @ ''\<newline>''
      @ ''\<newline>''
      @ ''[LEGAL MOVES]\<newline>''
      @ (if length legalMoves > 30 then join '', '' (take 30 legalMoves) @ ''... and '' @ show_nat (length legalMoves - 30) @ '' more'' else join '', '' legalMoves)
      @ ''\<newline>''
      @ ''\<newline>''
      @ ''[YOUR MOVE]''\<close>

definition getChessPrompt2 :: "chess_js \<Rightarrow> string \<Rightarrow> string list \<Rightarrow> thrown + prompt" where
  "getChessPrompt2 L fen_string legalMoves =
     (case new_Chess L fen_string of
        Inl msg \<Rightarrow> Inl (Error msg)
      | Inr game \<Rightarrow>
          (case hangingPieces L game of
             Inl e \<Rightarrow> Inl e
           | Inr hanging \<Rightarrow>
               Inr \<lparr>system = system_prompt2 game legalMoves,
                     user = user_prompt2 game legalMoves hanging\<rparr>))"

definition POST2 ::
  "chess_js \<Rightarrow> environment \<Rightarrow> openai_client \<Rightarrow> rat \<Rightarrow> request_body \<Rightarrow> response" where
  "POST2 = route_POST (\<lambda>legalMoves. selectModel2) getChessPrompt2"

section \<open>chess-ai: the client\<close>




section \<open>The ply count of a position\<close>

text \<open>
  The specification classifies a position by its ply count. A FEN records it: the sixth
  field is the number of the move about to be played, the second the side to play it.
\<close>

fun split_on :: "char \<Rightarrow> string \<Rightarrow> string list" where
  "split_on c [] = [[]]"
| "split_on c (x # xs) =
     (if x = c then [] # split_on c xs
      else (case split_on c xs of [] \<Rightarrow> [[x]] | w # ws \<Rightarrow> (x # w) # ws))"

definition digit_of :: "char \<Rightarrow> nat" where
  "digit_of c =
     (case map_of (zip ''0123456789'' [0, 1, 2, 3, 4, 5, 6, 7, 8, 9 :: nat]) c of
        None \<Rightarrow> 0 | Some d \<Rightarrow> d)"

definition read_nat :: "string \<Rightarrow> nat" where
  "read_nat s = foldl (\<lambda>n c. 10 * n + digit_of c) 0 s"

definition fen_ply_count :: "string \<Rightarrow> nat" where
  "fen_ply_count f =
     (case split_on CHR '' '' f of
        [_, side, _, _, _, fullmove] \<Rightarrow> 2 * (read_nat fullmove - 1) + (if side = ''b'' then 1 else 0)
      | _ \<Rightarrow> 0)"

section \<open>A finite excerpt of the rules engine\<close>

text \<open>
  The witnesses and counterexamples below run the code on concrete positions. For them the
  library parameter is instantiated by an excerpt of chess.js: a table of a few positions
  with the answers the library gives there (side to move, board, legal moves in the
  library's order, check and draw flags), and a table of a few moves with the positions
  they lead to. A FEN outside the table is answered like a malformed one, a move outside
  the table like an illegal one. The move table has, besides moves in the notation of the
  legal-move list, the same moves in coordinate notation, and for the start position the
  pass (the null move), written \<^verbatim>\<open>--\<close> or given as \<^verbatim>\<open>null\<close>: chess.js plays all of
  these.
\<close>

definition piece_of_char :: "char \<Rightarrow> (Color \<times> PieceSymbol) option" where
  "piece_of_char =
     map_of
       [(CHR ''P'', (White, Pawn)), (CHR ''N'', (White, Knight)), (CHR ''B'', (White, Bishop)),
        (CHR ''R'', (White, Rook)), (CHR ''Q'', (White, Queen)), (CHR ''K'', (White, King)),
        (CHR ''p'', (Black, Pawn)), (CHR ''n'', (Black, Knight)), (CHR ''b'', (Black, Bishop)),
        (CHR ''r'', (Black, Rook)), (CHR ''q'', (Black, Queen)), (CHR ''k'', (Black, King))]"

fun rank_squares :: "string \<Rightarrow> string \<Rightarrow> string \<Rightarrow> Piece option list" where
  \<comment> \<open>one rank of a FEN placement: the files still to fill, the rank digit, the text\<close>
  "rank_squares files r [] = []"
| "rank_squares files r (c # cs) =
     (case piece_of_char c of
        Some (col, t) \<Rightarrow>
          Some \<lparr>p_square = take 1 files @ r, p_type = t, p_color = col\<rparr>
          # rank_squares (drop 1 files) r cs
      | None \<Rightarrow> replicate (digit_of c) None @ rank_squares (drop (digit_of c) files) r cs)"

definition board_of_fen :: "string \<Rightarrow> Piece option list list" where
  "board_of_fen f =
     map (\<lambda>(r, row). rank_squares ''abcdefgh'' r row)
       (zip [''8'', ''7'', ''6'', ''5'', ''4'', ''3'', ''2'', ''1'']
            (split_on CHR ''/'' (hd (split_on CHR '' '' f))))"

definition turn_of_fen :: "string \<Rightarrow> Color" where
  "turn_of_fen f = (case split_on CHR '' '' f of _ # side # _ \<Rightarrow> if side = ''b'' then Black else White | _ \<Rightarrow> White)"

definition ascii_of_board :: "Piece option list list \<Rightarrow> string" where
  "ascii_of_board b =
     ''   +------------------------+\<newline>''
     @ concat (map (\<lambda>(r, row).
           '' '' @ r @ '' |''
           @ concat (map (\<lambda>sq. case sq of
                                  None \<Rightarrow> '' . ''
                                | Some p \<Rightarrow> '' '' @ (if p_color p = White then piece_upper (p_type p)
                                                         else piece_letter (p_type p)) @ '' '')
                       row)
           @ ''|\<newline>'')
         (zip [''8'', ''7'', ''6'', ''5'', ''4'', ''3'', ''2'', ''1''] b))
     @ ''   +------------------------+\<newline>''
     @ ''     a  b  c  d  e  f  g  h''"

definition position ::
  "string \<Rightarrow> bool \<Rightarrow> bool \<Rightarrow> (PieceSymbol \<times> string \<times> string \<times> PieceSymbol option \<times> string) list \<Rightarrow> Chess" where
  \<comment> \<open>an instance just built from the FEN \<open>f\<close>: whether the side to move is in check,
      whether the material is insufficient, and the legal moves as (piece, from, to,
      captured, SAN). Checkmate, stalemate, draw and game over follow from these as the
      library defines them; a fresh instance has no history.\<close>
  "position f in_check insufficient table =
     (let b = board_of_fen f;
          t = turn_of_fen f;
          ms = map (\<lambda>(p, a, z, c, s).
                  \<lparr>m_color = t, m_from = a, m_to = z, m_piece = p, m_captured = c, m_san = s\<rparr>) table;
          mate = (in_check \<and> table = []);
          stale = (\<not> in_check \<and> table = []);
          draw = (stale \<or> insufficient)
      in \<lparr>turn = t, board = b, fen = f, ascii = ascii_of_board b, history = [],
          moves = map m_san ms, moves_verbose = ms,
          moves_square = (\<lambda>sq. filter (\<lambda>mv. m_from mv = sq) ms),
          get = (\<lambda>sq. find (\<lambda>p. p_square p = sq) (List.map_filter id (concat b))),
          isCheck = in_check, isCheckmate = mate, isStalemate = stale, isDraw = draw,
          isThreefoldRepetition = False, isInsufficientMaterial = insufficient,
          isGameOver = (mate \<or> stale \<or> draw)\<rparr>)"

definition pawn_pushes :: "string \<Rightarrow> string \<Rightarrow> string \<Rightarrow> (PieceSymbol \<times> string \<times> string \<times> PieceSymbol option \<times> string) list" where
  \<comment> \<open>the single and double step of each pawn of a full home rank, file by file\<close>
  "pawn_pushes home one two =
     concat (map (\<lambda>c. [(Pawn, [c] @ home, [c] @ one, None, [c] @ one),
                       (Pawn, [c] @ home, [c] @ two, None, [c] @ two)]) ''abcdefgh'')"

definition start_fen :: string where
  "start_fen = ''rnbqkbnr/pppppppp/8/8/8/8/PPPPPPPP/RNBQKBNR w KQkq - 0 1''"

definition start_position :: Chess where
  "start_position =
     position start_fen False False
       (pawn_pushes ''2'' ''3'' ''4''
        @ [(Knight, ''b1'', ''a3'', None, ''Na3''), (Knight, ''b1'', ''c3'', None, ''Nc3''),
           (Knight, ''g1'', ''f3'', None, ''Nf3''), (Knight, ''g1'', ''h3'', None, ''Nh3'')])"

definition after_Nf3_fen :: string where
  "after_Nf3_fen = ''rnbqkbnr/pppppppp/8/8/8/5N2/PPPPPPPP/RNBQKB1R b KQkq - 1 1''"

definition after_Nf3 :: Chess where
  \<comment> \<open>the start position after the knight move g1-f3, which is then its history\<close>
  "after_Nf3 =
     (position after_Nf3_fen False False
        ([(Knight, ''b8'', ''c6'', None, ''Nc6''), (Knight, ''b8'', ''a6'', None, ''Na6''),
          (Knight, ''g8'', ''h6'', None, ''Nh6''), (Knight, ''g8'', ''f6'', None, ''Nf6'')]
         @ pawn_pushes ''7'' ''6'' ''5''))
     \<lparr>history := [\<lparr>m_color = White, m_from = ''g1'', m_to = ''f3'', m_piece = Knight,
                   m_captured = None, m_san = ''Nf3''\<rparr>]\<rparr>"

definition after_pass_fen :: string where
  "after_pass_fen = ''rnbqkbnr/pppppppp/8/8/8/8/PPPPPPPP/RNBQKBNR b KQkq - 1 1''"

definition after_pass :: Chess where
  \<comment> \<open>the start position after a pass of White, which is then its history\<close>
  "after_pass =
     (position after_pass_fen False False
        ([(Knight, ''b8'', ''c6'', None, ''Nc6''), (Knight, ''b8'', ''a6'', None, ''Na6''),
          (Knight, ''g8'', ''h6'', None, ''Nh6''), (Knight, ''g8'', ''f6'', None, ''Nf6'')]
         @ pawn_pushes ''7'' ''6'' ''5''))
     \<lparr>history := [\<lparr>m_color = White, m_from = ''a8'', m_to = ''a8'', m_piece = King,
                   m_captured = None, m_san = ''--''\<rparr>]\<rparr>"

definition fools_mate_fen :: string where
  "fools_mate_fen = ''rnb1kbnr/pppp1ppp/8/4p3/6Pq/5P2/PPPPP2P/RNBQKBNR w KQkq - 1 3''"

definition fools_mate :: Chess where
  \<comment> \<open>White is checkmated by the queen on h4\<close>
  "fools_mate = position fools_mate_fen True False []"

definition stalemate_fen :: string where
  "stalemate_fen = ''7k/5Q2/6K1/8/8/8/8/8 b - - 0 1''"

definition stalemate_position :: Chess where
  \<comment> \<open>Black, to move, is not in check and has no move\<close>
  "stalemate_position = position stalemate_fen False False []"

definition pawn_ending_fen :: string where
  "pawn_ending_fen = ''4k3/8/8/3p4/4P3/8/8/4K3 w - - 0 40''"

definition pawn_ending :: Chess where
  \<comment> \<open>move 40, White to play, who can take the pawn on d5\<close>
  "pawn_ending =
     position pawn_ending_fen False False
       [(Pawn, ''e4'', ''e5'', None, ''e5''), (Pawn, ''e4'', ''d5'', Some Pawn, ''exd5''),
        (King, ''e1'', ''d2'', None, ''Kd2''), (King, ''e1'', ''e2'', None, ''Ke2''),
        (King, ''e1'', ''f2'', None, ''Kf2''), (King, ''e1'', ''f1'', None, ''Kf1''),
        (King, ''e1'', ''d1'', None, ''Kd1'')]"

definition queen_fen :: string where
  "queen_fen = ''4k3/8/8/8/3Q4/8/8/4K3 w - - 0 1''"

definition queen_position :: Chess where
  \<comment> \<open>a queen in the centre of an open board: 27 queen moves and 5 king moves\<close>
  "queen_position =
     position queen_fen False False
       (map (\<lambda>(z, s). (Queen, ''d4'', z, None, s))
          [(''c5'', ''Qc5''), (''b6'', ''Qb6''), (''a7'', ''Qa7''),
           (''d5'', ''Qd5''), (''d6'', ''Qd6''), (''d7'', ''Qd7+''), (''d8'', ''Qd8+''),
           (''e5'', ''Qe5+''), (''f6'', ''Qf6''), (''g7'', ''Qg7''), (''h8'', ''Qh8+''),
           (''e4'', ''Qe4+''), (''f4'', ''Qf4''), (''g4'', ''Qg4''), (''h4'', ''Qh4''),
           (''e3'', ''Qe3+''), (''f2'', ''Qf2''), (''g1'', ''Qg1''),
           (''d3'', ''Qd3''), (''d2'', ''Qd2''), (''d1'', ''Qd1''),
           (''c3'', ''Qc3''), (''b2'', ''Qb2''), (''a1'', ''Qa1''),
           (''c4'', ''Qc4''), (''b4'', ''Qb4''), (''a4'', ''Qa4+'')]
        @ [(King, ''e1'', ''d2'', None, ''Kd2''), (King, ''e1'', ''e2'', None, ''Ke2''),
           (King, ''e1'', ''f2'', None, ''Kf2''), (King, ''e1'', ''f1'', None, ''Kf1''),
           (King, ''e1'', ''d1'', None, ''Kd1'')])"

definition nine_queens_fen :: string where
  "nine_queens_fen = ''7k/8/8/8/8/8/RRQQQQBN/KQBQQQQ1 b - - 0 1''"

definition nine_queens :: Chess where
  \<comment> \<open>White has nine queens, two rooks, two bishops and a knight, Black the bare king,
      which is not attacked and can step to g7 or g8\<close>
  "nine_queens =
     position nine_queens_fen False False
       [(King, ''h8'', ''g7'', None, ''Kg7''), (King, ''h8'', ''g8'', None, ''Kg8'')]"

definition one_move_fen :: string where
  "one_move_fen = ''7k/4Q3/6K1/8/8/8/8/8 b - - 0 1''"

definition one_move_position :: Chess where
  \<comment> \<open>Black, not in check, has the single move of the king to g8\<close>
  "one_move_position =
     position one_move_fen False False [(King, ''h8'', ''g8'', None, ''Kg8'')]"

definition after_Kg8_fen :: string where
  "after_Kg8_fen = ''6k1/4Q3/6K1/8/8/8/8/8 w - - 1 2''"

definition after_Kg8 :: Chess where
  \<comment> \<open>the position after that move, which is then its history\<close>
  "after_Kg8 =
     (position after_Kg8_fen False False
        (map (\<lambda>(z, s). (Queen, ''e7'', z, None, s))
           [(''d8'', ''Qd8#''), (''e8'', ''Qe8#''), (''f8'', ''Qf8+''),
            (''f7'', ''Qf7+''), (''g7'', ''Qg7#''), (''h7'', ''Qh7+''),
            (''f6'', ''Qf6''), (''g5'', ''Qg5''), (''h4'', ''Qh4''),
            (''e6'', ''Qe6+''), (''e5'', ''Qe5''), (''e4'', ''Qe4''), (''e3'', ''Qe3''),
            (''e2'', ''Qe2''), (''e1'', ''Qe1''),
            (''d6'', ''Qd6''), (''c5'', ''Qc5''), (''b4'', ''Qb4''), (''a3'', ''Qa3''),
            (''d7'', ''Qd7''), (''c7'', ''Qc7''), (''b7'', ''Qb7''), (''a7'', ''Qa7'')]
         @ [(King, ''g6'', ''h6'', None, ''Kh6''), (King, ''g6'', ''h5'', None, ''Kh5''),
            (King, ''g6'', ''g5'', None, ''Kg5''), (King, ''g6'', ''f5'', None, ''Kf5''),
            (King, ''g6'', ''f6'', None, ''Kf6'')]))
     \<lparr>history := [\<lparr>m_color = Black, m_from = ''h8'', m_to = ''g8'', m_piece = King,
                   m_captured = None, m_san = ''Kg8''\<rparr>]\<rparr>"

definition excerpt :: chess_js where
  "excerpt =
     \<lparr>new_Chess = (\<lambda>f.
        case map_of [(start_fen, start_position), (after_Nf3_fen, after_Nf3),
                     (fools_mate_fen, fools_mate), (stalemate_fen, stalemate_position),
                     (pawn_ending_fen, pawn_ending), (queen_fen, queen_position),
                     (nine_queens_fen, nine_queens), (one_move_fen, one_move_position),
                     (after_Kg8_fen, after_Kg8)] f of
          Some g \<Rightarrow> Inr g
        | None \<Rightarrow> Inl ''Invalid FEN: must contain six space-delimited fields''),
      move = (\<lambda>g mv.
        case map_of [((start_fen, Some (JStr ''Nf3'')), after_Nf3),
                     ((start_fen, Some (JStr ''g1f3'')), after_Nf3),
                     ((start_fen, Some (JStr ''--'')), after_pass),
                     ((start_fen, Some JNull), after_pass),
                     ((one_move_fen, Some (JStr ''Kg8'')), after_Kg8),
                     ((one_move_fen, Some (JStr ''h8g8'')), after_Kg8)]
               (fen g, mv) of
          Some g' \<Rightarrow> Inr g'
        | None \<Rightarrow>
            Inl (case mv of
                   None \<Rightarrow> ''Invalid move: undefined''
                 | Some (JStr s) \<Rightarrow> ''Invalid move: '' @ s
                 | Some _ \<Rightarrow> ''Invalid move''))\<rparr>"


definition production :: environment where
  "production = \<lparr>NODE_ENV = Some ''production'', stack_trace = (\<lambda>_. [])\<rparr>"

definition answering :: "string \<Rightarrow> openai_client" where
  \<comment> \<open>an external model that replies with the given text to every request\<close>
  "answering reply = (\<lambda>req. Inr (Some reply))"

definition out_of_quota :: openai_client where
  \<comment> \<open>an external model that fails every request with the quota error, and names in the
      message the model it was asked for\<close>
  "out_of_quota = (\<lambda>req. Inl (APIError (''no quota left for '' @ model req) (Some ''insufficient_quota'') (Some 429)))"

section \<open>The evaluator computes the material balance\<close>

lemma add_square_signed:
  "add_square s sq = s + (case sq of None \<Rightarrow> 0 | Some p \<Rightarrow> signed_value p)"
  by (cases sq; cases "p_type (the sq)")
     (simp_all add: add_square_def or_zero_def PIECE_VALUES_def signed_value_def)

lemma row_loop_sum:
  "row_loop s row = s + sum_list (map signed_value (List.map_filter id row))"
  by (induction row arbitrary: s)
     (simp_all add: add_square_signed List.map_filter_simps split: option.splits)

lemma map_filter_append:
  "List.map_filter f (xs @ ys) = List.map_filter f xs @ List.map_filter f ys"
  by (simp add: List.map_filter_def)

lemma board_loop_sum:
  "board_loop s b = s + sum_list (map signed_value (List.map_filter id (concat b)))"
  by (induction b arbitrary: s) (simp_all add: row_loop_sum map_filter_append List.map_filter_simps)

lemma board_loop_material: "board_loop 0 (board game) = material_sum game"
  by (simp add: board_loop_sum material_sum_def occupied_def)

lemma signed_value_int: "\<exists>k::int. signed_value p = of_int k"
proof (cases "p_color p = White")
  case True
  then show ?thesis
    by (cases "p_type p") (auto simp: signed_value_def intro: exI [of _ "1::int"] exI [of _ "3::int"] exI [of _ "5::int"] exI [of _ "9::int"] exI [of _ "0::int"])
next
  case False
  then show ?thesis
    by (cases "p_type p") (auto simp: signed_value_def intro: exI [of _ "-1::int"] exI [of _ "-3::int"] exI [of _ "-5::int"] exI [of _ "-9::int"] exI [of _ "0::int"])
qed

lemma sum_signed_int: "\<exists>k::int. sum_list (map signed_value ps) = of_int k"
proof (induction ps)
  case Nil
  show ?case by (simp add: exI [of _ 0])
next
  case (Cons p ps)
  from Cons obtain k where k: "sum_list (map signed_value ps) = of_int k" by blast
  obtain j where j: "signed_value p = of_int j" using signed_value_int by blast
  have "sum_list (map signed_value (p # ps)) = of_int (j + k)" by (simp add: j k)
  then show ?case by blast
qed

lemma toFixed1_of_int: "toFixed1 (of_int k) = of_int k"
proof -
  have a: "\<lfloor>(of_int k :: rat) * 10 + 1 / 2\<rfloor> = k * 10"
    by (rule floor_unique) (simp_all)
  have b: "\<lfloor>1 / 2 - (of_int k :: rat) * 10\<rfloor> = - k * 10"
    by (rule floor_unique) (simp_all)
  show ?thesis by (simp add: toFixed1_def a b)
qed

lemma toFixed1_material: "toFixed1 (material_sum game) = material_sum game"
proof -
  obtain k :: int where "material_sum game = of_int k"
    unfolding material_sum_def using sum_signed_int by blast
  then show ?thesis by (simp add: toFixed1_of_int)
qed

lemma evaluateBoard_ongoing:
  "\<not> isCheckmate game \<Longrightarrow> \<not> isDraw game \<Longrightarrow> \<not> isThreefoldRepetition game \<Longrightarrow>
   \<not> isInsufficientMaterial game \<Longrightarrow> evaluateBoard game = material_sum game"
  by (simp add: evaluateBoard_def board_loop_material toFixed1_material)


text \<open>
  Claim C2 says that the score has absolute value 100 exactly in the checkmate positions.
  One direction fails: the material balance itself can be 100. With nine queens, two
  rooks, two bishops and a knight against the bare king, Black to move and not mated,
  the evaluator returns 100.
\<close>

theorem evaluateBoard_hundred_without_mate:
  "\<not> (\<bar>evaluateBoard nine_queens\<bar> = 100 \<longleftrightarrow> isCheckmate nine_queens)"
proof -
  have a: "\<not> isCheckmate nine_queens" by code_simp
  have b: "evaluateBoard nine_queens = 100" by code_simp
  show ?thesis using a b by simp
qed

text \<open>
  Claim C2, as the code has it: in a checkmate position the score is -100 when White is to
  move and 100 when Black is; and a score of absolute value 100 means checkmate, or else a
  position that is not drawn and whose material balance is 100 in absolute value.
\<close>

theorem evaluateBoard_checkmate:
  "(isCheckmate game \<longrightarrow> evaluateBoard game = (if turn game = White then - 100 else 100)) \<and>
   (\<bar>evaluateBoard game\<bar> = 100 \<longrightarrow>
      isCheckmate game \<or>
      (\<not> isDraw game \<and> \<not> isThreefoldRepetition game \<and> \<not> isInsufficientMaterial game \<and>
       \<bar>material_sum game\<bar> = 100))"
proof (intro conjI impI)
  assume "isCheckmate game"
  then show "evaluateBoard game = (if turn game = White then - 100 else 100)"
    by (simp add: evaluateBoard_def)
next
  assume h: "\<bar>evaluateBoard game\<bar> = 100"
  show "isCheckmate game \<or>
      (\<not> isDraw game \<and> \<not> isThreefoldRepetition game \<and> \<not> isInsufficientMaterial game \<and>
       \<bar>material_sum game\<bar> = 100)"
  proof (cases "isCheckmate game")
    case True
    then show ?thesis by simp
  next
    case False
    with h have nd: "\<not> (isDraw game \<or> isThreefoldRepetition game \<or> isInsufficientMaterial game)"
      by (auto simp: evaluateBoard_def split: if_splits)
    with False have "evaluateBoard game = material_sum game"
      by (simp add: evaluateBoard_ongoing)
    with h nd show ?thesis by simp
  qed
qed

theorem evaluateBoard_checkmate_witness:
  "isCheckmate fools_mate \<and> turn fools_mate = White \<and> evaluateBoard fools_mate = - 100 \<and>
   \<bar>evaluateBoard fools_mate\<bar> = 100"
proof -
  have m: "isCheckmate fools_mate" and t: "turn fools_mate = White"
    by code_simp+
  from evaluateBoard_checkmate [of fools_mate] m t
  have "evaluateBoard fools_mate = - 100" by simp
  with m t show ?thesis by simp
qed

text \<open>
  Claim C3: in a position that is neither checkmate nor drawn, the score is the sum of the
  signed piece values over the occupied squares, rounded to one decimal (the rounding
  changes nothing, the sum being an integer); and in a position drawn by insufficient
  material, threefold repetition or stalemate the score is 0. The code asks the library
  \<^verbatim>\<open>isDraw\<close>, \<^verbatim>\<open>isThreefoldRepetition\<close> and \<^verbatim>\<open>isInsufficientMaterial\<close>, after
  \<^verbatim>\<open>isCheckmate\<close>; that the library counts a stalemate as a draw and reports no drawn
  position as checkmate are the hypotheses on the library.
\<close>

theorem evaluateBoard_material_or_draw:
  "(\<not> isCheckmate game \<and> \<not> isDraw game \<and> \<not> isThreefoldRepetition game \<and>
    \<not> isInsufficientMaterial game \<longrightarrow>
      evaluateBoard game = toFixed1 (material_sum game) \<and>
      toFixed1 (material_sum game) = material_sum game) \<and>
   ((isInsufficientMaterial game \<or> isThreefoldRepetition game \<or> isStalemate game) \<and>
    (isStalemate game \<longrightarrow> isDraw game) \<and> \<not> isCheckmate game \<longrightarrow>
      evaluateBoard game = 0)"
  by (auto simp: evaluateBoard_def board_loop_material toFixed1_material)

theorem evaluateBoard_material_or_draw_witness:
  "material_sum queen_position = 9 \<and> evaluateBoard queen_position = 9 \<and>
   isStalemate stalemate_position \<and> evaluateBoard stalemate_position = 0"
proof -
  have q: "\<not> isCheckmate queen_position \<and> \<not> isDraw queen_position \<and>
      \<not> isThreefoldRepetition queen_position \<and> \<not> isInsufficientMaterial queen_position"
    by code_simp
  have m: "material_sum queen_position = 9" by code_simp
  have s: "(isInsufficientMaterial stalemate_position \<or> isThreefoldRepetition stalemate_position \<or>
       isStalemate stalemate_position) \<and>
      (isStalemate stalemate_position \<longrightarrow> isDraw stalemate_position) \<and>
      \<not> isCheckmate stalemate_position"
    by code_simp
  have s': "isStalemate stalemate_position" by code_simp
  from evaluateBoard_material_or_draw [of queen_position] q m
  have 1: "evaluateBoard queen_position = 9" by simp
  from evaluateBoard_material_or_draw [of stalemate_position] s
  have 2: "evaluateBoard stalemate_position = 0" by blast
  from m 1 s' 2 show ?thesis by simp
qed

section \<open>The route /api/chess-move: what it answers\<close>

subsection \<open>Random choice, response bodies, and the steps of the handler\<close>

lemma pick_Some: "pick rnd xs = Some x \<Longrightarrow> x \<in> set xs"
proof -
  assume a: "pick rnd xs = Some x"
  let ?i = "\<lfloor>rnd * of_nat (length xs)\<rfloor>"
  from a have r: "0 \<le> ?i" "?i < int (length xs)" "x = xs ! nat ?i"
    by (auto simp: pick_def Let_def split: if_splits)
  then have "nat ?i < length xs" by linarith
  with r(3) show ?thesis by simp
qed


lemma json_body_simps:
  "json_body [] = []"
  "json_body ((k, Some v) # kvs) = (k, v) # json_body kvs"
  "json_body ((k, None) # kvs) = json_body kvs"
  "json_body (xs @ ys) = json_body xs @ json_body ys"
  by (simp_all add: json_body_def List.map_filter_def)

lemma createChessGame_Inr:
  "createChessGame L f = Inr g \<longleftrightarrow> new_Chess L f = Inr g \<and> \<not> isGameOver g \<and> \<not> isDraw g"
  by (auto simp: createChessGame_def split: sum.splits)

lemma createChessGame_over:
  "new_Chess L f = Inr g \<Longrightarrow> isGameOver g \<or> isDraw g \<Longrightarrow>
   createChessGame L f = Inl (Error ''Game is already over'')"
  by (auto simp: createChessGame_def)

lemma createChessGame_invalid:
  "new_Chess L f = Inl msg \<Longrightarrow> createChessGame L f = Inl (Error msg)"
  by (simp add: createChessGame_def)

lemma quota_response_move:
  "map_of (body (quota_response rnd lm e)) ''move'' = map_option JStr (pick rnd lm)"
  by (cases "pick rnd lm"; cases "message e") (simp_all add: quota_response_def json_body_simps)



lemma move_response_move:
  "map_of (body (move_response v after)) ''move'' = map_option JStr v"
  by (cases v) (simp_all add: move_response_def json_body_simps Let_def)

lemma game_over_response_no_move:
  "game_over_response game = Some r \<Longrightarrow> map_of (body r) ''move'' = None"
  by (auto simp: game_over_response_def Let_def json_body_simps split: if_splits)

lemma POST_catch_no_move: "map_of (body (POST_catch env e)) ''move'' = None"
  by (simp add: POST_catch_def Let_def json_body_simps)

lemma validateMove_cases:
  "validateMove L rnd f mv lm = Some m \<Longrightarrow>
   m \<in> set lm \<or> (m = mv \<and> (\<exists>g after. new_Chess L f = Inr g \<and> move L g (Some (JStr m)) = Inr after))"
  by (auto simp: validateMove_def split: sum.splits dest: pick_Some)



lemma after_completion_cases:
  assumes "after_completion L rnd f lm out = Inr r" "map_of (body r) ''move'' = Some j"
  shows "\<exists>mv. j = JStr mv \<and>
           ((\<exists>e. out = Inl e) \<and> mv \<in> set lm \<or>
            (\<exists>g after. new_Chess L f = Inr g \<and> move L g (Some (JStr mv)) = Inr after) \<and>
            (mv \<in> set lm \<or> (\<exists>reply. out = Inr (Some reply) \<and> mv = trim reply)))"
proof (cases out)
  case (Inl apiError)
  with assms(1) have r: "r = quota_response rnd lm apiError"
    by (simp add: after_completion_def split: if_splits)
  with assms(2) obtain mv where "pick rnd lm = Some mv" "j = JStr mv"
    by (auto simp: quota_response_move)
  with Inl show ?thesis using pick_Some by fastforce
next
  case (Inr content)
  with assms(1) obtain c fresh after where
    c: "content = Some c" "trim c \<noteq> []"
    and fresh: "createChessGame L f = Inr fresh"
    and after: "move L fresh (map_option JStr (validateMove L rnd f (trim c) lm)) = Inr after"
    and r: "r = move_response (validateMove L rnd f (trim c) lm) after"
    by (auto simp: after_completion_def Let_def split: option.splits if_splits sum.splits)
  from assms(2) r obtain mv where v: "validateMove L rnd f (trim c) lm = Some mv" and j: "j = JStr mv"
    by (auto simp: move_response_move)
  from after v have a: "move L fresh (Some (JStr mv)) = Inr after" by simp
  from fresh have n: "new_Chess L f = Inr fresh" by (simp add: createChessGame_Inr)
  from validateMove_cases [OF v] have "mv \<in> set lm \<or> mv = trim c" by blast
  with a n j Inr c(1) show ?thesis by blast
qed

lemma handle_fen_cases:
  assumes "handle_fen sel build L openai rnd f = Inr r" "map_of (body r) ''move'' = Some j"
  shows "\<exists>game mv. new_Chess L f = Inr game \<and> j = JStr mv \<and>
           (mv \<in> set (moves game) \<or>
            (\<exists>after. move L game (Some (JStr mv)) = Inr after) \<and>
            (\<exists>req reply. openai req = Inr (Some reply) \<and> mv = trim reply))"
proof -
  from assms(1) obtain game where g: "createChessGame L f = Inr game"
    by (auto simp: handle_fen_def split: sum.splits)
  then have n: "new_Chess L f = Inr game" by (simp add: createChessGame_Inr)
  show ?thesis
  proof (cases "game_over_response game")
    case (Some r')
    with assms(1) g have "r = r'" by (simp add: handle_fen_def Let_def)
    with Some assms(2) show ?thesis by (simp add: game_over_response_no_move)
  next
    case None
    with assms(1) g obtain req where "after_completion L rnd f (moves game) (openai req) = Inr r"
      by (auto simp: handle_fen_def Let_def split: sum.splits)
    from after_completion_cases [OF this assms(2)] n show ?thesis by auto
  qed
qed

lemma route_POST_cases:
  assumes "map_of (body (route_POST sel build L env openai rnd request)) ''move'' = Some j"
  shows "\<exists>f game mv. request = JsonValue (Some f) \<and> new_Chess L f = Inr game \<and> j = JStr mv \<and>
           (mv \<in> set (moves game) \<or>
            (\<exists>after. move L game (Some (JStr mv)) = Inr after) \<and>
            (\<exists>req reply. openai req = Inr (Some reply) \<and> mv = trim reply))"
proof (cases "POST_try sel build L openai rnd request")
  case (Inl e)
  with assms show ?thesis by (simp add: route_POST_def POST_catch_no_move)
next
  case (Inr r)
  with assms have m: "map_of (body r) ''move'' = Some j" by (simp add: route_POST_def)
  from Inr m obtain f where f: "request = JsonValue (Some f)" "handle_fen sel build L openai rnd f = Inr r"
    by (auto simp: POST_try_def json_body_simps split: request_body.splits option.splits if_splits)
  from handle_fen_cases [OF f(2) m] f(1) show ?thesis by blast
qed

lemma already_over_text:
  "str_includes (toLowerCase ''Game is already over'') ''already over''"
  "\<not> str_includes ''Game is already over'' ''Game over''"
  "\<not> str_includes ''Game is already over'' ''Checkmate''"
  "\<not> str_includes ''Game is already over'' ''drawn''"
  by code_simp+

lemma destructure_text:
  "\<not> str_includes (toLowerCase ''Cannot destructure property 'fen' of 'requestBody' as it is null.'') ''already over''"
  "\<not> str_includes (toLowerCase ''Cannot destructure property 'fen' of 'requestBody' as it is null.'') ''invalid fen''"
  by code_simp+

lemma POST_catch_status:
  "status (POST_catch env (Error msg)) =
     (if str_includes (toLowerCase msg) ''already over'' \<or> str_includes (toLowerCase msg) ''invalid fen''
      then 400 else 500)"
  by (simp add: POST_catch_def Let_def)

lemma POST_catch_already_over:
  "status (POST_catch env (Error ''Game is already over'')) = 400"
  "map_of (body (POST_catch env (Error ''Game is already over''))) ''error'' = Some (JStr ''Game is already over'')"
  "map_of (body (POST_catch env (Error ''Game is already over''))) ''gameOver'' = Some (JBool False)"
  "map_of (body (POST_catch env (Error ''Game is already over''))) ''reason'' = None"
  "map_of (body (POST_catch env (Error ''Game is already over''))) ''winner'' = None"
  by (simp_all add: POST_catch_def Let_def already_over_text json_body_simps)

lemma POST_try_fen:
  "f \<noteq> [] \<Longrightarrow> POST_try sel build L openai rnd (JsonValue (Some f)) = handle_fen sel build L openai rnd f"
  by (simp add: POST_try_def)

lemma handle_fen_over:
  "new_Chess L f = Inr game \<Longrightarrow> isGameOver game \<or> isDraw game \<Longrightarrow>
   handle_fen sel build L openai rnd f = Inl (Error ''Game is already over'')"
  by (simp add: handle_fen_def createChessGame_over)

lemma handle_fen_invalid:
  "new_Chess L f = Inl msg \<Longrightarrow> handle_fen sel build L openai rnd f = Inl (Error msg)"
  by (simp add: handle_fen_def createChessGame_invalid)

lemma getChessPrompt_Inr:
  "new_Chess L f = Inr game \<Longrightarrow> \<exists>p. getChessPrompt L f lm = Inr p"
  unfolding getChessPrompt_def by (simp only: sum.case) (intro exI, rule refl)

lemma game_over_response_None:
  "\<not> isCheckmate game \<Longrightarrow> \<not> isDraw game \<Longrightarrow> \<not> isGameOver game \<Longrightarrow> game_over_response game = None"
  by (simp add: game_over_response_def)

lemma handle_fen_request:
  "createChessGame L f = Inr game \<Longrightarrow> game_over_response game = None \<Longrightarrow>
   build L f (moves game) = Inr p \<Longrightarrow>
   handle_fen sel build L openai rnd f =
     after_completion L rnd f (moves game)
       (openai (completion_request (sel (moves game)) getAISettings p))"
  by (simp add: handle_fen_def Let_def)

lemma route_POST_request:
  assumes "new_Chess L f = Inr game" "f \<noteq> []"
    and "\<not> isGameOver game" "\<not> isDraw game" "\<not> isCheckmate game"
    and "build L f (moves game) = Inr p"
  shows "route_POST sel build L env openai rnd (JsonValue (Some f)) =
           (case after_completion L rnd f (moves game)
                   (openai (completion_request (sel (moves game)) getAISettings p)) of
              Inl e \<Rightarrow> POST_catch env e
            | Inr r \<Rightarrow> r)"
proof -
  from assms have c: "createChessGame L f = Inr game" by (simp add: createChessGame_Inr)
  from assms have g: "game_over_response game = None" by (simp add: game_over_response_None)
  from c g assms(6) have "handle_fen sel build L openai rnd f =
      after_completion L rnd f (moves game) (openai (completion_request (sel (moves game)) getAISettings p))"
    by (rule handle_fen_request)
  with assms(2) show ?thesis
    by (simp add: route_POST_def POST_try_fen split: sum.splits)
qed

lemmas fen_defs =
  start_fen_def after_Nf3_fen_def fools_mate_fen_def stalemate_fen_def pawn_ending_fen_def
  queen_fen_def nine_queens_fen_def one_move_fen_def after_Kg8_fen_def after_pass_fen_def

lemma excerpt_positions:
  "new_Chess excerpt start_fen = Inr start_position"
  "new_Chess excerpt fools_mate_fen = Inr fools_mate"
  "new_Chess excerpt stalemate_fen = Inr stalemate_position"
  "new_Chess excerpt pawn_ending_fen = Inr pawn_ending"
  "new_Chess excerpt queen_fen = Inr queen_position"
  "new_Chess excerpt nine_queens_fen = Inr nine_queens"
  "new_Chess excerpt one_move_fen = Inr one_move_position"
  by (simp_all add: excerpt_def fen_defs)



lemma trim_examples:
  "trim '' Nf3\<newline>'' = ''Nf3''"
  "trim (''g1f3'' @ [CHR 0xC2, CHR 0xA0]) = ''g1f3''"
  "trim [CHR 0xC2, CHR 0xA0] = []"
  "trim ([CHR 0xEF, CHR 0xBB, CHR 0xBF] @ ''e4'' @ [CHR 0xE2, CHR 0x80, CHR 0xA8]) = ''e4''"
  "trim ''N f3'' = ''N f3''"
  by code_simp+

lemma POST_blank_reply:
  "status (POST excerpt production (answering [CHR 0xC2, CHR 0xA0]) 0 (JsonValue (Some start_fen))) = 500"
  "map_of (body (POST excerpt production (answering [CHR 0xC2, CHR 0xA0]) 0 (JsonValue (Some start_fen)))) ''error''
     = Some (JStr ''No move returned from AI'')"
  "map_of (body (POST excerpt production (answering (''g1f3'' @ [CHR 0xC2, CHR 0xA0])) 0
                   (JsonValue (Some start_fen)))) ''move''
     = Some (JStr ''g1f3'')"
  by code_simp+

subsection \<open>The move that is sent back\<close>




text \<open>
  Two variants: with no hypothesis on the library the move is listed or accepted; and a
  library that accepts listed moves only gives listed moves.
\<close>

lemma POST_move_accepted_or_listed:
  assumes "map_of (body (POST L env openai rnd request)) ''move'' = Some j"
  shows "\<exists>f game mv. request = JsonValue (Some f) \<and> new_Chess L f = Inr game \<and> j = JStr mv \<and>
           (mv \<in> set (moves game) \<or> (\<exists>after. move L game (Some (JStr mv)) = Inr after))"
  using route_POST_cases [OF assms [unfolded POST_def]] by blast

lemma POST_move_listed_by_strict_engine:
  assumes "\<forall>game mv after. move L game (Some (JStr mv)) = Inr after \<longrightarrow> mv \<in> set (moves game)"
    and "map_of (body (POST L env openai rnd request)) ''move'' = Some j"
  shows "\<exists>f game mv. request = JsonValue (Some f) \<and> new_Chess L f = Inr game \<and> j = JStr mv \<and>
           mv \<in> set (moves game)"
  using POST_move_accepted_or_listed [OF assms(2)] assms(1) by blast

subsection \<open>Positions that are already finished\<close>

text \<open>
  Claim C4 says that a FEN whose side to move is checkmated is answered with status 200,
  \<^verbatim>\<open>gameOver: true\<close>, the winner and the reason \<^verbatim>\<open>checkmate\<close>. The handler has that
  reply (\<open>game_over_response\<close>), but it comes after \<^verbatim>\<open>createChessGame\<close>, which throws
  \<^verbatim>\<open>Game is already over\<close> for every position the library reports as over, and the
  library reports a checkmate as over. The reply is therefore never sent: the answer is
  status 400 with \<^verbatim>\<open>gameOver: false\<close> and no reason.
\<close>

theorem POST_checkmate_is_rejected:
  assumes "new_Chess L f = Inr game" "f \<noteq> []" "isCheckmate game" "isGameOver game"
  shows "status (POST L env openai rnd (JsonValue (Some f))) = 400 \<and>
         map_of (body (POST L env openai rnd (JsonValue (Some f)))) ''error'' = Some (JStr ''Game is already over'') \<and>
         map_of (body (POST L env openai rnd (JsonValue (Some f)))) ''gameOver'' = Some (JBool False) \<and>
         map_of (body (POST L env openai rnd (JsonValue (Some f)))) ''reason'' = None"
proof -
  have "POST L env openai rnd (JsonValue (Some f)) = POST_catch env (Error ''Game is already over'')"
    using assms by (simp add: POST_def route_POST_def POST_try_fen handle_fen_over)
  then show ?thesis by (simp add: POST_catch_already_over)
qed

theorem POST_checkmate_is_rejected_witness:
  "new_Chess excerpt fools_mate_fen = Inr fools_mate \<and> isCheckmate fools_mate \<and> isGameOver fools_mate \<and>
   status (POST excerpt production (answering ''Nf3'') 0 (JsonValue (Some fools_mate_fen))) = 400 \<and>
   map_of (body (POST excerpt production (answering ''Nf3'') 0 (JsonValue (Some fools_mate_fen)))) ''reason'' = None"
proof -
  have a: "new_Chess excerpt fools_mate_fen = Inr fools_mate" by (rule excerpt_positions)
  have b: "fools_mate_fen \<noteq> []" by code_simp
  have c: "isCheckmate fools_mate" by code_simp
  have d: "isGameOver fools_mate" by code_simp
  from POST_checkmate_is_rejected [OF a b c d, of production "answering ''Nf3''" 0] a c d
  show ?thesis by simp
qed

text \<open>
  Input errors that are answered with status 400: a body that is not JSON, a body without
  a \<^verbatim>\<open>fen\<close> (or with an empty one), a FEN that the library rejects with a message
  containing \<^verbatim>\<open>Invalid FEN\<close>, and a FEN of a position that is over or drawn.
\<close>

lemma POST_input_errors_400:
  "status (POST L env openai rnd Unparseable) = 400"
  "status (POST L env openai rnd (JsonValue None)) = 400"
  "status (POST L env openai rnd (JsonValue (Some []))) = 400"
  "new_Chess L f = Inl msg \<Longrightarrow> str_includes (toLowerCase msg) ''invalid fen'' \<Longrightarrow>
     status (POST L env openai rnd (JsonValue (Some f))) = 400"
  "new_Chess L f = Inr game \<Longrightarrow> isGameOver game \<or> isDraw game \<Longrightarrow>
     status (POST L env openai rnd (JsonValue (Some f))) = 400"
proof -
  show "status (POST L env openai rnd Unparseable) = 400"
    "status (POST L env openai rnd (JsonValue None)) = 400"
    "status (POST L env openai rnd (JsonValue (Some []))) = 400"
    by (simp_all add: POST_def route_POST_def POST_try_def)
next
  assume a: "new_Chess L f = Inl msg" "str_includes (toLowerCase msg) ''invalid fen''"
  show "status (POST L env openai rnd (JsonValue (Some f))) = 400"
  proof (cases "f = []")
    case True
    then show ?thesis by (simp add: POST_def route_POST_def POST_try_def)
  next
    case False
    with a show ?thesis
      by (simp add: POST_def route_POST_def POST_try_fen handle_fen_invalid POST_catch_status)
  qed
next
  assume a: "new_Chess L f = Inr game" "isGameOver game \<or> isDraw game"
  show "status (POST L env openai rnd (JsonValue (Some f))) = 400"
  proof (cases "f = []")
    case True
    then show ?thesis by (simp add: POST_def route_POST_def POST_try_def)
  next
    case False
    with a show ?thesis
      by (simp add: POST_def route_POST_def POST_try_fen handle_fen_over POST_catch_already_over)
  qed
qed

text \<open>
  Claim C5 says that every request whose body is missing the \<^verbatim>\<open>fen\<close> field, carries a
  malformed FEN or the FEN of a finished position is answered with status 400. The cases
  above hold, but a body that is the JSON value \<^verbatim>\<open>null\<close> has no \<^verbatim>\<open>fen\<close> field either,
  and there the destructuring \<^verbatim>\<open>const { fen } = requestBody\<close> throws before the check
  \<^verbatim>\<open>if (!fen)\<close> is reached; the handler answers with status 500.
\<close>

theorem POST_null_body_is_500:
  "status (POST L env openai rnd JsonNull) = 500"
  by (simp add: POST_def route_POST_def POST_try_def POST_catch_status destructure_text)

subsection \<open>The fallback on quota and rate-limit errors\<close>

lemma after_completion_quota:
  "code e = Some ''insufficient_quota'' \<or> http_status e = Some 429 \<Longrightarrow>
   after_completion L rnd f lm (Inl e) = Inr (quota_response rnd lm e)"
  by (simp add: after_completion_def)



subsection \<open>The model that is asked\<close>

lemma quota_response_originalError:
  "map_of (body (quota_response rnd lm e)) ''originalError'' = map_option JStr (message e)"
  by (cases "pick rnd lm"; cases "message e") (simp_all add: quota_response_def json_body_simps)

lemma getChessPrompt2_Inr:
  "new_Chess L f = Inr game \<Longrightarrow> hangingPieces L game = Inr h \<Longrightarrow>
   \<exists>p. getChessPrompt2 L f lm = Inr p"
  unfolding getChessPrompt2_def by (simp only: sum.case) (intro exI, rule refl)

text \<open>
  Claim C9 says that the route chooses the model by the ply count of the position: gpt-4
  above 30 plies, gpt-3.5-turbo otherwise. The number the route hands to \<^verbatim>\<open>selectModel\<close>
  is \<^verbatim>\<open>legalMoves.length\<close>, the number of legal moves. In the position with a queen on an
  open board no ply has been played (the FEN is at move 1 with White to play, and the
  decoded instance has no history), there are 32 legal moves, and gpt-4 is asked.
\<close>

theorem model_asked_at_ply_zero:
  "map_of (body (POST excerpt production out_of_quota 0 (JsonValue (Some queen_fen)))) ''originalError''
     = Some (JStr ''no quota left for gpt-4'') \<and>
   new_Chess excerpt queen_fen = Inr queen_position \<and>
   length (history queen_position) = 0 \<and> fen_ply_count queen_fen = 0 \<and>
   selectModel (fen_ply_count queen_fen) = ''gpt-3.5-turbo''"
proof -
  have "map_of (body (POST excerpt production out_of_quota 0 (JsonValue (Some queen_fen)))) ''originalError''
     = Some (JStr ''no quota left for gpt-4'')"
    by code_simp
  moreover have "length (history queen_position) = 0" "fen_ply_count queen_fen = 0"
    "selectModel (fen_ply_count queen_fen) = ''gpt-3.5-turbo''"
    by code_simp+
  ultimately show ?thesis by (simp add: excerpt_positions)
qed

text \<open>
  Claim C9, as the code has it: for a position that is not over, the route
  \<^verbatim>\<open>/api/chess-move\<close> sends its request with the model gpt-4 when the position has more than
  30 legal moves and gpt-3.5-turbo otherwise, and the route \<^verbatim>\<open>/api/chess-move-2\<close> sends
  it with gpt-4 always.
\<close>

theorem model_by_number_of_legal_moves:
  assumes "new_Chess L f = Inr game" "f \<noteq> []"
    and "\<not> isGameOver game" "\<not> isDraw game" "\<not> isCheckmate game"
    and "getChessPrompt L f (moves game) = Inr p" "getChessPrompt2 L f (moves game) = Inr p2"
  shows "POST L env openai rnd (JsonValue (Some f)) =
           (case after_completion L rnd f (moves game)
                   (openai (completion_request
                              (if 30 < length (moves game) then ''gpt-4'' else ''gpt-3.5-turbo'')
                              getAISettings p)) of
              Inl e \<Rightarrow> POST_catch env e
            | Inr r \<Rightarrow> r) \<and>
         POST2 L env openai rnd (JsonValue (Some f)) =
           (case after_completion L rnd f (moves game)
                   (openai (completion_request ''gpt-4'' getAISettings p2)) of
              Inl e \<Rightarrow> POST_catch env e
            | Inr r \<Rightarrow> r)"
  using route_POST_request [where build = getChessPrompt
      and sel = "\<lambda>legalMoves. selectModel (length legalMoves)", OF assms(1-6)]
    route_POST_request [where build = getChessPrompt2
      and sel = "\<lambda>legalMoves. selectModel2", OF assms(1-5) assms(7)]
  by (simp add: POST_def POST2_def selectModel_def selectModel2_def)

theorem model_by_number_of_legal_moves_witness:
  "length (moves queen_position) = 32 \<and>
   map_of (body (POST excerpt production out_of_quota 0 (JsonValue (Some queen_fen)))) ''originalError''
     = Some (JStr ''no quota left for gpt-4'') \<and>
   map_of (body (POST2 excerpt production out_of_quota 0 (JsonValue (Some queen_fen)))) ''originalError''
     = Some (JStr ''no quota left for gpt-4'')"
proof -
  have a: "new_Chess excerpt queen_fen = Inr queen_position" by (rule excerpt_positions)
  have b: "queen_fen \<noteq> []" by code_simp
  have c: "\<not> isGameOver queen_position" "\<not> isDraw queen_position" "\<not> isCheckmate queen_position"
    by code_simp+
  have n: "length (moves queen_position) = 32" by code_simp
  obtain p where p: "getChessPrompt excerpt queen_fen (moves queen_position) = Inr p"
    using getChessPrompt_Inr [OF a] by blast
  have "hangingPieces excerpt queen_position = Inr []" by code_simp
  with a obtain p2 where p2: "getChessPrompt2 excerpt queen_fen (moves queen_position) = Inr p2"
    using getChessPrompt2_Inr by blast
  have q: "\<And>m s pr. after_completion excerpt 0 queen_fen (moves queen_position)
              (out_of_quota (completion_request m s pr))
            = Inr (quota_response 0 (moves queen_position)
                     (APIError (''no quota left for '' @ m) (Some ''insufficient_quota'') (Some 429)))"
    by (simp add: out_of_quota_def completion_request_def after_completion_quota)
  from model_by_number_of_legal_moves [OF a b c p p2, of production out_of_quota 0] n
  show ?thesis by (simp add: q quota_response_originalError)
qed

section \<open>The prompts\<close>

lemma gamePhase_thresholds:
  "gamePhase game =
     (if length (history game) < 10 then ''Opening''
      else if length (history game) > 30 then ''Endgame'' else ''Middlegame'')"
  by (simp add: gamePhase_def isOpening_def isEndgame_def)

lemma gamePhase_fresh: "history game = [] \<Longrightarrow> gamePhase game = ''Opening''"
  by (simp add: gamePhase_thresholds)

lemma getChessPrompt_phase:
  assumes "new_Chess L f = Inr game" "gamePhase game = ph"
  shows "\<exists>p pre post. getChessPrompt L f lm = Inr p \<and> user p = pre @ ''- Game Phase: '' @ ph @ post"
proof -
  let ?pre = "''[Game Context]\<newline>'' @ ''- Position: '' @ f @ ''\<newline>'' @ ''- Turn: '' @ turn_upper game @ ''\<newline>''"
  from assms obtain p where p: "getChessPrompt L f lm = Inr p"
    using getChessPrompt_Inr by blast
  with assms have "\<exists>post. user p = ?pre @ ''- Game Phase: '' @ ph @ post"
    unfolding getChessPrompt_def by (auto simp only: sum.case sum.inject prompt.simps append_assoc)
  with p show ?thesis by blast
qed

lemma user_prompt2_phase:
  "\<exists>pre post. user_prompt2 game lm h = pre @ ''- Phase: '' @ gamePhase game @ post"
proof -
  let ?pre = "''[POSITION AFTER '' @ show_nat (length (history game)) @ '' MOVES]\<newline>''
     @ ascii game @ ''\<newline>'' @ ''\<newline>'' @ ''[GAME CONTEXT]\<newline>'' @ ''- Turn: ''
     @ turn_upper game @ '' to move\<newline>''"
  have "\<exists>post. user_prompt2 game lm h = ?pre @ ''- Phase: '' @ gamePhase game @ post"
    unfolding user_prompt2_def by (auto simp only: append_assoc)
  then show ?thesis by blast
qed

lemma getChessPrompt2_user:
  "new_Chess L f = Inr game \<Longrightarrow> getChessPrompt2 L f lm = Inr p2 \<Longrightarrow>
   \<exists>h. user p2 = user_prompt2 game lm h"
  by (auto simp: getChessPrompt2_def split: sum.splits)

text \<open>
  Claim C7 says that the prompt names the phase by the ply count of the position posted:
  Opening below 10 plies, Endgame above 30, Middlegame otherwise. Both prompt builders
  take the count from \<^verbatim>\<open>game.history().length\<close> of the instance they have just built
  from the FEN (\<open>gamePhase_thresholds\<close>). An instance built from a FEN has an empty
  history in chess.js, whatever the move number of the FEN; with that as the hypothesis on
  the library, both prompts say Opening for every FEN. The witness is a pawn ending at
  move 40, 78 plies into the game.
\<close>

theorem phase_of_decoded_position:
  assumes "new_Chess L f = Inr game" "history game = []"
  shows "(\<exists>p pre post. getChessPrompt L f lm = Inr p \<and>
            user p = pre @ ''- Game Phase: Opening'' @ post) \<and>
         (\<forall>p2. getChessPrompt2 L f lm = Inr p2 \<longrightarrow>
            (\<exists>pre post. user p2 = pre @ ''- Phase: Opening'' @ post))"
proof (intro conjI allI impI)
  from assms(2) have ph: "gamePhase game = ''Opening''" by (rule gamePhase_fresh)
  from getChessPrompt_phase [OF assms(1) ph]
  show "\<exists>p pre post. getChessPrompt L f lm = Inr p \<and> user p = pre @ ''- Game Phase: Opening'' @ post"
    by simp
  fix p2
  assume "getChessPrompt2 L f lm = Inr p2"
  with assms(1) obtain h where "user p2 = user_prompt2 game lm h"
    using getChessPrompt2_user by blast
  with user_prompt2_phase [of game lm h] ph
  show "\<exists>pre post. user p2 = pre @ ''- Phase: Opening'' @ post"
    by simp
qed

theorem phase_of_decoded_position_witness:
  "fen_ply_count pawn_ending_fen = 78 \<and>
   new_Chess excerpt pawn_ending_fen = Inr pawn_ending \<and> history pawn_ending = [] \<and>
   (\<exists>p pre post. getChessPrompt excerpt pawn_ending_fen (moves pawn_ending) = Inr p \<and>
      user p = pre @ ''- Game Phase: Opening'' @ post) \<and>
   (\<exists>p2 pre post. getChessPrompt2 excerpt pawn_ending_fen (moves pawn_ending) = Inr p2 \<and>
      user p2 = pre @ ''- Phase: Opening'' @ post)"
proof -
  have n: "fen_ply_count pawn_ending_fen = 78" by code_simp
  have a: "new_Chess excerpt pawn_ending_fen = Inr pawn_ending" by (rule excerpt_positions)
  have b: "history pawn_ending = []" by code_simp
  have "hangingPieces excerpt pawn_ending = Inr []" by code_simp
  with a obtain p2 where p2: "getChessPrompt2 excerpt pawn_ending_fen (moves pawn_ending) = Inr p2"
    using getChessPrompt2_Inr by blast
  from phase_of_decoded_position [OF a b, of "moves pawn_ending"] p2 n a b
  show ?thesis by blast
qed

text \<open>
  Claim C8 says that the hanging-piece list of the richer prompt holds the legal captures of
  the opponent's pieces, each marked as defended when the opponent can reach the square of
  the capture. The list is filtered from the legal moves of the side to move by
  \<^verbatim>\<open>move.captured && move.color === opponentColor\<close>; every legal move is a move of the
  side to move (the hypothesis on the library), so no move passes the filter and the list is
  empty, also when a capture is there to be made. (The defended mark, which no entry ever
  gets, asks \<^verbatim>\<open>isSquareDefended\<close> for the side to move, not for the opponent.)
\<close>

theorem hangingPieces_is_empty:
  assumes "\<forall>mv \<in> set (moves_verbose game). m_color mv = turn game"
  shows "hangingPieces L game = Inr []"
proof -
  have "filter (\<lambda>mv. m_captured mv \<noteq> None \<and>
                       m_color mv = (if turn game = White then Black else White))
          (moves_verbose game) = []"
    using assms by (auto simp: filter_empty_conv)
  then show ?thesis by (simp add: hangingPieces_def Let_def)
qed

theorem hangingPieces_is_empty_witness:
  "turn pawn_ending = White \<and>
   map m_color (moves_verbose pawn_ending) = [White, White, White, White, White, White, White] \<and>
   map m_san (filter (\<lambda>mv. m_captured mv \<noteq> None) (moves_verbose pawn_ending)) = [''exd5''] \<and>
   hangingPieces excerpt pawn_ending = Inr []"
proof -
  have h: "\<forall>mv \<in> set (moves_verbose pawn_ending). m_color mv = turn pawn_ending"
    by code_simp
  have "turn pawn_ending = White"
    "map m_color (moves_verbose pawn_ending) = [White, White, White, White, White, White, White]"
    "map m_san (filter (\<lambda>mv. m_captured mv \<noteq> None) (moves_verbose pawn_ending)) = [''exd5'']"
    by code_simp+
  with hangingPieces_is_empty [OF h, of excerpt] show ?thesis by simp
qed

section \<open>The client\<close>






end
